theory Spec2Isabelle
  imports Main "HOL-Library.Sublist"
begin

section \<open>JavaScript values used by the test suite\<close>

text \<open>
  A thrown value is either an \<open>Error\<close> object (with its \<open>name\<close> and \<open>message\<close>) or any
  other value, which the code only ever renders into a string. \<open>to_string\<close> is what the
  template literals \<^verbatim>\<open>${error}\<close> of the source compute (\<open>Error.prototype.toString\<close>).
\<close>

datatype js_exn = JsError string string | JsThrown string

fun to_string :: "js_exn \<Rightarrow> string" where
  "to_string (JsError name msg) =
     (if name = [] then msg else if msg = [] then name else name @ '': '' @ msg)"
| "to_string (JsThrown s) = s"

definition new_Error :: "string \<Rightarrow> js_exn" where
  "new_Error msg = JsError ''Error'' msg"

text \<open>Decimal rendering of an integer, as \<^verbatim>\<open>${attempt}\<close> renders a whole number.\<close>

fun digits :: "nat \<Rightarrow> string" where
  "digits n = (if n < 10 then [char_of (48 + n)] else digits (n div 10) @ [char_of (48 + n mod 10)])"

declare digits.simps [simp del]

definition number_to_string :: "int \<Rightarrow> string" where
  "number_to_string i = (if i < 0 then ''-'' @ digits (nat (- i)) else digits (nat i))"

text \<open>\<open>String.prototype.includes\<close> and \<open>startsWith\<close>.\<close>

fun str_includes :: "string \<Rightarrow> string \<Rightarrow> bool" where
  "str_includes [] sub = (sub = [])"
| "str_includes (c # cs) sub = (prefix sub (c # cs) \<or> str_includes cs sub)"

definition startsWith :: "string \<Rightarrow> string \<Rightarrow> bool" where
  "startsWith s pre = prefix pre s"

section \<open>The world: console, timers and an external state\<close>

text \<open>
  Every function of the suite is asynchronous and sequential. A computation takes the
  world and returns either the thrown value (\<open>Inl\<close>) or its result (\<open>Inr\<close>), with the
  world it leaves behind. The world holds the console output, the delays handed to
  \<open>setTimeout\<close> in order, and the state \<open>page\<close> of whatever else the computation acts on.
\<close>

datatype level = LOG | WARN | ERROR

record 'p world =
  page :: 'p
  console :: "(level \<times> string) list"
  timers :: "int list"

type_synonym ('a, 'p) io = "'p world \<Rightarrow> (js_exn + 'a) \<times> 'p world"

definition ret :: "'a \<Rightarrow> ('a, 'p) io" where
  "ret v w = (Inr v, w)"

definition throw :: "js_exn \<Rightarrow> ('a, 'p) io" where
  "throw e w = (Inl e, w)"

definition seq :: "('a, 'p) io \<Rightarrow> ('a \<Rightarrow> ('b, 'p) io) \<Rightarrow> ('b, 'p) io" where
  "seq m f w = (case m w of (Inl e, w') \<Rightarrow> (Inl e, w') | (Inr v, w') \<Rightarrow> f v w')"

definition try_catch :: "('a, 'p) io \<Rightarrow> (js_exn \<Rightarrow> ('a, 'p) io) \<Rightarrow> ('a, 'p) io" where
  "try_catch m h w = (case m w of (Inl e, w') \<Rightarrow> h e w' | (Inr v, w') \<Rightarrow> (Inr v, w'))"

definition console_out :: "level \<Rightarrow> string \<Rightarrow> 'p world \<Rightarrow> 'p world" where
  "console_out l s w = w\<lparr>console := console w @ [(l, s)]\<rparr>"

definition console_log :: "string \<Rightarrow> (unit, 'p) io" where
  "console_log s w = (Inr (), console_out LOG s w)"

definition console_warn :: "string \<Rightarrow> (unit, 'p) io" where
  "console_warn s w = (Inr (), console_out WARN s w)"

definition console_error :: "string \<Rightarrow> (unit, 'p) io" where
  "console_error s w = (Inr (), console_out ERROR s w)"

text \<open>\<^verbatim>\<open>await new Promise(resolve => setTimeout(resolve, delayMs))\<close>\<close>

definition set_timeout :: "int \<Rightarrow> 'p world \<Rightarrow> 'p world" where
  "set_timeout d w = w\<lparr>timers := timers w @ [d]\<rparr>"


section \<open>The browser behind the page object\<close>

text \<open>
  The browser-automation engine and the application under test are external. Every call
  the suite makes on a \<open>Page\<close> or a \<open>Locator\<close> is recorded in the \<open>history\<close>, with whether it
  resolved, and what a call answers is given by a \<open>browser\<close>: any function of the calls
  made so far and of the call itself. A locator is the selector it was built from.
\<close>

datatype locator = Locator string | First locator | Nth locator nat | Within locator string

text \<open>
  The document handed to \<open>page.setContent\<close>, as its tree of elements; white space between
  tags is left out.
\<close>

datatype node = Element string "(string \<times> string) list" "node list" | Text string

record element =
  tagName :: string
  id_attribute :: "string option"
  className :: "string option"
  textContent :: "string option"
  attributes :: "(string \<times> string) list"
  role :: "string option"
  ariaLabel :: "string option"

record snapshot =
  pageInfo_title :: string
  pageInfo_url :: string
  elementsCount :: nat
  accessibilityTree :: "element list"

text \<open>
  A screenshot is named by its path up to the time stamp (\<open>Date.now()\<close>) that the source
  appends to it.
\<close>

datatype call =
    Goto string string int
  | SetContent node
  | SetViewportSize nat nat
  | Title
  | Evaluate string
  | Screenshot string "bool option"
  | WaitForLoadState string "int option"
  | WaitForTimeout int
  | Count locator
  | LocatorAll locator
  | IsVisible locator "int option"
  | WaitFor locator string int
  | Click locator "bool option" int
  | TextContent locator
  | Clear locator
  | Fill locator string

type_synonym history = "(call \<times> bool) list"

record browser =
  settles :: "history \<Rightarrow> call \<Rightarrow> js_exn + unit"
  answers_string :: "history \<Rightarrow> call \<Rightarrow> js_exn + string"
  answers_text :: "history \<Rightarrow> call \<Rightarrow> js_exn + string option"
  answers_number :: "history \<Rightarrow> call \<Rightarrow> js_exn + nat"
  answers_boolean :: "history \<Rightarrow> call \<Rightarrow> js_exn + bool"
  answers_snapshot :: "history \<Rightarrow> call \<Rightarrow> js_exn + snapshot"
  url_at :: "history \<Rightarrow> string"

record browser_page =
  history :: history

definition perform ::
  "(history \<Rightarrow> call \<Rightarrow> js_exn + 'a) \<Rightarrow> call \<Rightarrow> ('a, 'x browser_page_scheme) io" where
  "perform answer c w =
     (let h = history (page w); r = answer h c
      in (r, w\<lparr>page := (page w)\<lparr>history := h @ [(c, \<not> isl r)]\<rparr>\<rparr>))"

definition page_goto :: "browser \<Rightarrow> string \<Rightarrow> string \<Rightarrow> int \<Rightarrow> (unit, 'x browser_page_scheme) io" where
  "page_goto b u waitUntil t = perform (settles b) (Goto u waitUntil t)"

definition page_setContent :: "browser \<Rightarrow> node \<Rightarrow> (unit, 'x browser_page_scheme) io" where
  "page_setContent b html = perform (settles b) (SetContent html)"

definition page_setViewportSize :: "browser \<Rightarrow> nat \<Rightarrow> nat \<Rightarrow> (unit, 'x browser_page_scheme) io" where
  "page_setViewportSize b width height = perform (settles b) (SetViewportSize width height)"

definition page_title :: "browser \<Rightarrow> (string, 'x browser_page_scheme) io" where
  "page_title b = perform (answers_string b) Title"

text \<open>\<open>page.url()\<close> is synchronous: it reads the address and is no call of its own.\<close>

definition page_url :: "browser \<Rightarrow> (string, 'x browser_page_scheme) io" where
  "page_url b w = (Inr (url_at b (history (page w))), w)"

definition page_screenshot :: "browser \<Rightarrow> string \<Rightarrow> bool option \<Rightarrow> (unit, 'x browser_page_scheme) io" where
  "page_screenshot b path fullPage = perform (settles b) (Screenshot path fullPage)"

definition page_waitForLoadState ::
  "browser \<Rightarrow> string \<Rightarrow> int option \<Rightarrow> (unit, 'x browser_page_scheme) io" where
  "page_waitForLoadState b state t = perform (settles b) (WaitForLoadState state t)"

definition page_waitForTimeout :: "browser \<Rightarrow> int \<Rightarrow> (unit, 'x browser_page_scheme) io" where
  "page_waitForTimeout b t = perform (settles b) (WaitForTimeout t)"

definition locator_count :: "browser \<Rightarrow> locator \<Rightarrow> (nat, 'x browser_page_scheme) io" where
  "locator_count b l = perform (answers_number b) (Count l)"

text \<open>\<open>locator.all()\<close>: one locator for each element matched.\<close>

definition locator_all :: "browser \<Rightarrow> locator \<Rightarrow> (locator list, 'x browser_page_scheme) io" where
  "locator_all b l = seq (perform (answers_number b) (LocatorAll l)) (\<lambda>n. ret (map (Nth l) [0..<n]))"

definition locator_isVisible ::
  "browser \<Rightarrow> locator \<Rightarrow> int option \<Rightarrow> (bool, 'x browser_page_scheme) io" where
  "locator_isVisible b l t = perform (answers_boolean b) (IsVisible l t)"

definition locator_waitFor ::
  "browser \<Rightarrow> locator \<Rightarrow> string \<Rightarrow> int \<Rightarrow> (unit, 'x browser_page_scheme) io" where
  "locator_waitFor b l state t = perform (settles b) (WaitFor l state t)"

definition locator_click ::
  "browser \<Rightarrow> locator \<Rightarrow> bool option \<Rightarrow> int \<Rightarrow> (unit, 'x browser_page_scheme) io" where
  "locator_click b l frc t = perform (settles b) (Click l frc t)"

definition locator_textContent ::
  "browser \<Rightarrow> locator \<Rightarrow> (string option, 'x browser_page_scheme) io" where
  "locator_textContent b l = perform (answers_text b) (TextContent l)"

definition locator_clear :: "browser \<Rightarrow> locator \<Rightarrow> (unit, 'x browser_page_scheme) io" where
  "locator_clear b l = perform (settles b) (Clear l)"

definition locator_fill :: "browser \<Rightarrow> locator \<Rightarrow> string \<Rightarrow> (unit, 'x browser_page_scheme) io" where
  "locator_fill b l v = perform (settles b) (Fill l v)"

text \<open>Rendering of values inside template literals.\<close>

definition boolean_to_string :: "bool \<Rightarrow> string" where
  "boolean_to_string v = (if v then ''true'' else ''false'')"

definition text_to_string :: "string option \<Rightarrow> string" where
  "text_to_string t = (case t of None \<Rightarrow> ''null'' | Some s \<Rightarrow> s)"

text \<open>
  \<open>toLowerCase\<close> and \<open>trim\<close> on strings whose characters are code points below 256.
\<close>

definition lower_char :: "char \<Rightarrow> char" where
  "lower_char c =
     (let n = of_char c :: nat
      in if (65 \<le> n \<and> n \<le> 90) \<or> (192 \<le> n \<and> n \<le> 222 \<and> n \<noteq> 215) then char_of (n + 32) else c)"

definition toLowerCase :: "string \<Rightarrow> string" where
  "toLowerCase s = map lower_char s"

definition is_white_space :: "char \<Rightarrow> bool" where
  "is_white_space c = (of_char c \<in> {9, 10, 11, 12, 13, 32, 160 :: nat})"

definition trim :: "string \<Rightarrow> string" where
  "trim s = rev (dropWhile is_white_space (rev (dropWhile is_white_space s)))"

section \<open>config/constants.ts\<close>




record timeouts =
  SHORT :: int
  MEDIUM :: int
  LONG :: int
  EXTENDED :: int

definition TIMEOUTS :: timeouts where
  "TIMEOUTS = \<lparr>SHORT = 5000, MEDIUM = 15000, LONG = 30000, EXTENDED = 60000\<rparr>"

record navigation =
  WATCHLIST_MANAGER :: string
  SYNONYMS :: string
  SYNONYMS_RULES_MANAGER :: string
  LISTS :: string
  STANDARD_LISTS :: string

definition NAVIGATION :: navigation where
  "NAVIGATION = \<lparr>WATCHLIST_MANAGER = ''Watchlist Manager'', SYNONYMS = ''Synonyms'',
     SYNONYMS_RULES_MANAGER = ''Synonyms Rules Manager'', LISTS = ''Lists'',
     STANDARD_LISTS = ''Standard Lists''\<rparr>"

record test_data =
  RULE_SET_NAME :: string
  EXPECTED_TEXT :: string
  EU_LIST_NAME :: string
  EU_NAME_TEXT :: string

definition TEST_DATA :: test_data where
  "TEST_DATA = \<lparr>RULE_SET_NAME = ''Weighted words rule set'', EXPECTED_TEXT = ''agency rule'',
     EU_LIST_NAME = ''EU List'', EU_NAME_TEXT = ''eu_name''\<rparr>"

section \<open>utils/helpers.ts: retry\<close>

text \<open>
  \<^verbatim>\<open>for (let attempt = 1; attempt <= maxRetries; attempt++)\<close> with the loop variables
  \<open>attempt\<close> and \<open>lastError\<close> as arguments; \<open>None\<close> is \<open>undefined\<close>.
\<close>

function retry_from :: "('a, 'p) io \<Rightarrow> int \<Rightarrow> int \<Rightarrow> int \<Rightarrow> js_exn option \<Rightarrow> ('a, 'p) io" where
  "retry_from operation maxRetries delayMs attempt lastError w =
     (if attempt \<le> maxRetries then
        (case operation w of
           (Inr v, w1) \<Rightarrow> (Inr v, w1)
         | (Inl error, w1) \<Rightarrow>
             (let w2 = console_out WARN
                         (''Retry attempt '' @ number_to_string attempt @ ''/'' @
                          number_to_string maxRetries @ '' failed: '' @ to_string error) w1;
                  w3 = (if attempt < maxRetries then set_timeout delayMs w2 else w2)
              in retry_from operation maxRetries delayMs (attempt + 1) (Some error) w3))
      else
        (Inl (new_Error (''Operation failed after '' @ number_to_string maxRetries @
                         '' attempts. Last error: '' @
                         (case lastError of None \<Rightarrow> ''undefined'' | Some e \<Rightarrow> to_string e))), w))"
  by pat_completeness auto
termination
  by (relation "measure (\<lambda>(operation, maxRetries, delayMs, attempt, lastError, w).
                   nat (maxRetries + 1 - attempt))") auto

declare retry_from.simps [simp del]

definition retry :: "('a, 'p) io \<Rightarrow> int \<Rightarrow> int \<Rightarrow> ('a, 'p) io" where
  "retry operation maxRetries delayMs = retry_from operation maxRetries delayMs 1 None"

section \<open>utils/helpers.ts: the other helpers\<close>



text \<open>The callers modelled here pass \<open>timeoutMs\<close>; its default is \<open>TIMEOUTS.MEDIUM\<close>.\<close>

definition waitForElement :: "browser \<Rightarrow> locator \<Rightarrow> int \<Rightarrow> (unit, 'x browser_page_scheme) io" where
  "waitForElement b locator timeoutMs =
     try_catch (locator_waitFor b locator ''visible'' timeoutMs)
       (\<lambda>error.
          seq (console_error (''Element wait timed out: '' @ to_string error)) (\<lambda>_.
          throw (new_Error (''Element wait timed out: '' @ to_string error))))"


text \<open>\<open>timeoutMs\<close> defaults to 5000.\<close>

definition elementExists :: "browser \<Rightarrow> locator \<Rightarrow> int \<Rightarrow> (bool, 'x browser_page_scheme) io" where
  "elementExists b locator timeoutMs =
     try_catch (seq (locator_waitFor b locator ''attached'' timeoutMs) (\<lambda>_. ret True))
       (\<lambda>error. ret False)"

record click_options =
  force :: "bool option"
  timeout :: "int option"

text \<open>
  \<^verbatim>\<open>options?.timeout || TIMEOUTS.MEDIUM\<close>: a missing timeout and the timeout 0 both give
  the default. \<open>retry\<close> is called with its defaults, three attempts one second apart.
\<close>

definition safeClick ::
  "browser \<Rightarrow> locator \<Rightarrow> click_options option \<Rightarrow> (unit, 'x browser_page_scheme) io" where
  "safeClick b locator options =
     (let timeout = (case options of
                       None \<Rightarrow> MEDIUM TIMEOUTS
                     | Some opts \<Rightarrow>
                         (case timeout opts of
                            None \<Rightarrow> MEDIUM TIMEOUTS
                          | Some t \<Rightarrow> if t = 0 then MEDIUM TIMEOUTS else t))
      in retry
           (seq (waitForElement b locator timeout) (\<lambda>_.
            locator_click b locator (case options of None \<Rightarrow> None | Some opts \<Rightarrow> force opts) timeout))
           3 1000)"

section \<open>pages/watchlistManager/WatchlistManagerPage.ts\<close>

text \<open>
  The selector function injected into a page object is a computation of its own: the one
  the tests inject writes to the console and reads the last snapshot.
\<close>

type_synonym 'p McpSelectorFn = "string \<Rightarrow> (string, 'p) io"

text \<open>
  The page object with its locators. Its field \<open>mcpSelector\<close> is read by \<open>getSelector\<close>
  alone, which takes it here as its first argument.
\<close>

record WatchlistManagerPage =
  mainMenuButton :: locator
  watchlistManagerMenu :: locator
  synonymsMenu :: locator
  synonymsRulesManagerMenu :: locator
  listsMenu :: locator
  standardListsMenu :: locator
  euListLink :: locator
  nameColumnHeader :: locator
  nameColumnSortIcon :: locator
  sortColumnHeading :: locator
  weightedWordsRuleSetLink :: locator
  agencyRuleText :: locator

definition WatchlistManagerPage_getSelector ::
  "'p McpSelectorFn option \<Rightarrow> string \<Rightarrow> string \<Rightarrow> (string, 'p) io" where
  \<open>WatchlistManagerPage_getSelector mcp description fallbackSelector =
     seq (console_log (''Searching for selector with description: "'' @ description @ ''"'')) (\<lambda>_.
     (let fallback =
            seq (console_log (''Using fallback selector for "'' @ description @ ''": '' @ fallbackSelector))
              (\<lambda>_. ret fallbackSelector)
      in case mcp of
           None \<Rightarrow> fallback
         | Some f \<Rightarrow>
             try_catch
               (seq (f (trim (toLowerCase description))) (\<lambda>mcpGeneratedSelector.
                seq (console_log (''Using MCP selector for "'' @ description @ ''": '' @
                                  mcpGeneratedSelector))
                  (\<lambda>_. ret mcpGeneratedSelector)))
               (\<lambda>error.
                  seq (console_warn (''Error using MCP selector for "'' @ description @ ''": '' @
                                     to_string error))
                    (\<lambda>_. fallback))))\<close>

definition WatchlistManagerPage_new :: "'p McpSelectorFn option \<Rightarrow> (WatchlistManagerPage, 'p) io" where
  \<open>WatchlistManagerPage_new mcp =
     seq (WatchlistManagerPage_getSelector mcp ''watchlist manager menu''
            ''//*[@id="home_watchlistmanagement"]'') (\<lambda>s1.
     seq (WatchlistManagerPage_getSelector mcp ''synonyms menu''
            ''//*[@id="home_watchlistmanagement_menu-item_synonyms_path"]'') (\<lambda>s2.
     seq (WatchlistManagerPage_getSelector mcp ''synonyms rules manager menu''
            ''//*[@id="home_watchlistmanagement_menu-item_synonyms_path_menu-item_synonym_rules_manager_path"]'') (\<lambda>s3.
     seq (WatchlistManagerPage_getSelector mcp ''eu list'' (''text='' @ EU_LIST_NAME TEST_DATA)) (\<lambda>s4.
     seq (WatchlistManagerPage_getSelector mcp ''name column header'' ''th:has-text("Name")'') (\<lambda>s5.
     seq (WatchlistManagerPage_getSelector mcp ''sort icon'' ''.sort-icon, .sortable-icon'') (\<lambda>s6.
     seq (WatchlistManagerPage_getSelector mcp ''weighted words rule set''
            (''a:has-text("'' @ RULE_SET_NAME TEST_DATA @ ''")'')) (\<lambda>s7.
     seq (WatchlistManagerPage_getSelector mcp ''agency rule''
            (''a:has-text("'' @ EXPECTED_TEXT TEST_DATA @ ''")'')) (\<lambda>s8.
     seq (console_log ''WatchlistManagerPage initialized with MCP selectors:'') (\<lambda>_.
     seq (WatchlistManagerPage_getSelector mcp ''main menu'' ''//*[@id="menu-trigger"]'') (\<lambda>l1.
     seq (console_log (''- Main menu: '' @ l1)) (\<lambda>_.
     seq (WatchlistManagerPage_getSelector mcp ''watchlist manager menu''
            ''//*[@id="home_watchlistmanagement"]'') (\<lambda>l2.
     seq (console_log (''- Watchlist Manager menu: '' @ l2)) (\<lambda>_.
     seq (WatchlistManagerPage_getSelector mcp ''agency rule''
            (''a:has-text("'' @ EXPECTED_TEXT TEST_DATA @ ''")'')) (\<lambda>l3.
     seq (console_log (''- Agency rule: '' @ l3)) (\<lambda>_.
     seq (console_log ''- Lists menu: //*[@id="home_watchlistmanagement_home_watchlistmanagement_lists"]'') (\<lambda>_.
     seq (console_log ''- Standard Lists menu: //*[@id="home_watchlistmanagement_home_watchlistmanagement_lists_home_watchlistmanagement_lists_standard"]'') (\<lambda>_.
     seq (WatchlistManagerPage_getSelector mcp ''eu list''
            (''a:has-text("'' @ EU_LIST_NAME TEST_DATA @ ''")'')) (\<lambda>l4.
     seq (console_log (''- EU List: '' @ l4)) (\<lambda>_.
     ret \<lparr>mainMenuButton = Locator ''//*[@id="menu-trigger"]'',
          watchlistManagerMenu = Locator s1,
          synonymsMenu = Locator s2,
          synonymsRulesManagerMenu = Locator s3,
          listsMenu = Locator ''//*[@id="home_watchlistmanagement_home_watchlistmanagement_lists"]'',
          standardListsMenu = Locator ''//*[@id="home_watchlistmanagement_home_watchlistmanagement_lists_home_watchlistmanagement_lists_standard"]'',
          euListLink = Locator s4,
          nameColumnHeader = Locator s5,
          nameColumnSortIcon = Within (Locator s5) s6,
          sortColumnHeading = Locator ''//*[@id="SYSWLMPP_Synonym_RS_List_sort0"]'',
          weightedWordsRuleSetLink = Locator s7,
          agencyRuleText = Locator s8\<rparr>)))))))))))))))))))\<close>

definition isRunningInMockMode :: "browser \<Rightarrow> (bool, 'x browser_page_scheme) io" where
  \<open>isRunningInMockMode b =
     try_catch
       (seq (console_log ''Checking if running in mock mode'') (\<lambda>_.
        seq (page_title b) (\<lambda>title.
        if str_includes title ''Mock'' \<or> str_includes title ''Test Mode'' then
          seq (console_log ''Mock mode detected via page title'') (\<lambda>_. ret True)
        else
        seq (page_url b) (\<lambda>url.
        if str_includes url ''mock=true'' then
          seq (console_log ''Mock mode detected via URL parameter'') (\<lambda>_. ret True)
        else
        seq (locator_count b (Locator ''[data-testid="mock-indicator"]'')) (\<lambda>mockIndicators.
        if mockIndicators > 0 then
          seq (console_log ''Mock mode detected via mock indicator elements'') (\<lambda>_. ret True)
        else
        seq (seq (locator_count b (Locator ''h1:has-text("NetReveal Mock Dashboard")'')) (\<lambda>n.
             if n > 0 then ret True
             else seq (locator_count b (Locator ''p:has-text("mock mode")'')) (\<lambda>m. ret (m > 0))))
          (\<lambda>hasMockElements.
        (let isMockByUrl = (startsWith url ''data:'' \<or> str_includes url ''about:blank'')
         in if hasMockElements \<or> isMockByUrl then
              seq (console_log ''Mock mode detected via additional checks'') (\<lambda>_. ret True)
            else if str_includes url ''netreveal'' \<or> str_includes url ''https://10.222'' then
              seq (console_log ''Detected actual application URL, assuming NOT in mock mode'')
                (\<lambda>_. ret False)
            else
              seq (console_log ''No mock mode indicators found, assuming normal operation'')
                (\<lambda>_. ret False))))))))
       (\<lambda>error.
          seq (console_warn (''Error detecting mock mode: '' @ to_string error @
                             '', assuming mock mode for safety''))
            (\<lambda>_. ret True))\<close>



definition sortNameColumnIfNeeded ::
  "browser \<Rightarrow> WatchlistManagerPage \<Rightarrow> (unit, 'x browser_page_scheme) io" where
  \<open>sortNameColumnIfNeeded b this =
     try_catch
       (seq (console_log ''Checking if rule set is visible'') (\<lambda>_.
        seq (elementExists b (weightedWordsRuleSetLink this) 5000) (\<lambda>isRuleSetVisible.
        seq (if \<not> isRuleSetVisible then
               seq (console_log ''Rule set not visible, sorting Name column using XPath: //*[@id="SYSWLMPP_Synonym_RS_List_sort0"]'') (\<lambda>_.
               seq (safeClick b (sortColumnHeading this) None) (\<lambda>_.
               seq (page_waitForTimeout b 1000) (\<lambda>_.
               seq (elementExists b (weightedWordsRuleSetLink this) 5000) (\<lambda>isVisibleAfterFirstSort.
               if \<not> isVisibleAfterFirstSort then
                 seq (console_log ''Rule set not visible after first sort, trying reverse sort'') (\<lambda>_.
                 seq (safeClick b (sortColumnHeading this) None) (\<lambda>_.
                 page_waitForTimeout b 1000))
               else ret ()))))
             else ret ()) (\<lambda>_.
        console_log ''Name column sorted if needed''))))
       (\<lambda>error.
          seq (console_error (''Failed to sort Name column: '' @ to_string error)) (\<lambda>_.
          throw (new_Error (''Failed to sort Name column: '' @ to_string error))))\<close>

section \<open>pages/login/LoginPage.ts\<close>

record LoginPage =
  usernameInput :: locator
  passwordInput :: locator
  loginButton :: locator
  errorMessage :: locator

definition LoginPage_getSelector ::
  "'p McpSelectorFn option \<Rightarrow> string \<Rightarrow> string \<Rightarrow> (string, 'p) io" where
  \<open>LoginPage_getSelector mcp description fallbackSelector =
     (let fallback =
            seq (console_log (''Using fallback selector for "'' @ description @ ''": '' @ fallbackSelector))
              (\<lambda>_. ret fallbackSelector)
      in case mcp of
           None \<Rightarrow> fallback
         | Some f \<Rightarrow>
             try_catch
               (seq (f description) (\<lambda>mcpGeneratedSelector.
                seq (console_log (''Using MCP selector for "'' @ description @ ''": '' @
                                  mcpGeneratedSelector))
                  (\<lambda>_. ret mcpGeneratedSelector)))
               (\<lambda>error.
                  seq (console_warn (''Error using MCP selector for "'' @ description @ ''": '' @
                                     to_string error))
                    (\<lambda>_. fallback)))\<close>

definition LoginPage_new :: "'p McpSelectorFn option \<Rightarrow> (LoginPage, 'p) io" where
  \<open>LoginPage_new mcp =
     seq (LoginPage_getSelector mcp ''username field'' ''//*[@id="forms-text-field-username"]'') (\<lambda>s1.
     seq (LoginPage_getSelector mcp ''password field'' ''//*[@id="forms-text-field-password"]'') (\<lambda>s2.
     seq (LoginPage_getSelector mcp ''login button'' ''button:has-text("Login")'') (\<lambda>s3.
     seq (LoginPage_getSelector mcp ''error message''
            ''.error-message, .alert-error, text:has-text("failed")'') (\<lambda>s4.
     seq (console_log ''LoginPage initialized with selectors:'') (\<lambda>_.
     seq (LoginPage_getSelector mcp ''username field'' ''//*[@id="forms-text-field-username"]'') (\<lambda>l1.
     seq (console_log (''- Username: '' @ l1)) (\<lambda>_.
     seq (LoginPage_getSelector mcp ''password field'' ''//*[@id="forms-text-field-password"]'') (\<lambda>l2.
     seq (console_log (''- Password: '' @ l2)) (\<lambda>_.
     seq (LoginPage_getSelector mcp ''login button'' ''button:has-text("Login")'') (\<lambda>l3.
     seq (console_log (''- Login button: '' @ l3)) (\<lambda>_.
     ret \<lparr>usernameInput = Locator s1, passwordInput = Locator s2,
          loginButton = First (Locator s3), errorMessage = Locator s4\<rparr>)))))))))))\<close>


text \<open>
  The dashboard that \<open>login\<close> installs; the source writes the same document out in both of
  its \<open>catch\<close> blocks (the comment of the markup is left out).
\<close>

definition MOCK_DASHBOARD :: node where
  \<open>MOCK_DASHBOARD =
     Element ''html'' []
       [Element ''head'' []
          [Element ''title'' [] [Text ''NetReveal Dashboard''],
           Element ''style'' []
             [Text ''.menu-item { display: block !important; visibility: visible !important; border: 2px solid blue; margin: 10px; padding: 10px; background-color: #f0f0ff; }'']],
        Element ''body'' []
          [Element ''h1'' [] [Text ''NetReveal Mock Dashboard (All Elements Visible)''],
           Element ''p'' [] [Text ''Test running in mock mode with all navigation elements visible''],
           Element ''div'' [(''id'', ''menu-trigger''), (''class'', ''menu-item'')] [Text ''Menu Button''],
           Element ''div'' [(''id'', ''home_watchlistmanagement''), (''class'', ''menu-item'')]
             [Text ''Watchlist Manager Menu''],
           Element ''div'' [(''id'', ''home_watchlistmanagement_home_watchlistmanagement_lists''),
                            (''class'', ''menu-item'')] [Text ''Lists Menu''],
           Element ''div'' [(''id'', ''standard_lists''), (''class'', ''menu-item'')]
             [Text ''Standard Lists Menu''],
           Element ''div'' []
             [Element ''a'' [(''href'', ''#''), (''id'', ''eu_list_item''), (''class'', ''menu-item'')]
                [Text ''EU List Link'']],
           Element ''div'' [(''id'', ''eu_name_container''), (''class'', ''menu-item eu-name-container'')]
             [Text ''eu_name Text'']]]\<close>




definition enterUsername :: "browser \<Rightarrow> LoginPage \<Rightarrow> string \<Rightarrow> (unit, 'x browser_page_scheme) io" where
  "enterUsername b this username =
     try_catch
       (seq (locator_clear b (usernameInput this)) (\<lambda>_.
        seq (locator_fill b (usernameInput this) username) (\<lambda>_.
        console_log (''Username '' @ [CHR 0x27] @ username @ [CHR 0x27] @ '' entered''))))
       (\<lambda>error.
          seq (console_error (''Failed to enter username: '' @ to_string error)) (\<lambda>_.
          throw (new_Error (''Failed to enter username: '' @ to_string error))))"

definition enterPassword :: "browser \<Rightarrow> LoginPage \<Rightarrow> string \<Rightarrow> (unit, 'x browser_page_scheme) io" where
  "enterPassword b this password =
     try_catch
       (seq (locator_clear b (passwordInput this)) (\<lambda>_.
        seq (locator_fill b (passwordInput this) password) (\<lambda>_.
        console_log ''Password entered'')))
       (\<lambda>error.
          seq (console_error (''Failed to enter password: '' @ to_string error)) (\<lambda>_.
          throw (new_Error (''Failed to enter password: '' @ to_string error))))"

definition clickLogin :: "browser \<Rightarrow> LoginPage \<Rightarrow> (unit, 'x browser_page_scheme) io" where
  "clickLogin b this =
     try_catch
       (seq (safeClick b (loginButton this) None) (\<lambda>_. console_log ''Login button clicked''))
       (\<lambda>error.
          seq (console_error (''Failed to click login button: '' @ to_string error)) (\<lambda>_.
          throw (new_Error (''Failed to click login button: '' @ to_string error))))"

definition login ::
  "browser \<Rightarrow> LoginPage \<Rightarrow> string \<Rightarrow> string \<Rightarrow> (unit, 'x browser_page_scheme) io" where
  "login b this username password =
     try_catch
       (seq (enterUsername b this username) (\<lambda>_.
        seq (enterPassword b this password) (\<lambda>_.
        seq (clickLogin b this) (\<lambda>_.
        seq (try_catch
               (seq (try_catch (page_waitForLoadState b ''networkidle'' (Some 30000))
                       (\<lambda>_. console_log ''Navigation timeout after login, but continuing...'')) (\<lambda>_.
                seq (try_catch (locator_isVisible b (errorMessage this) None) (\<lambda>_. ret False))
                  (\<lambda>errorVisible.
                if errorVisible then
                  seq (locator_textContent b (errorMessage this)) (\<lambda>errorText.
                  throw (new_Error (''Login failed: '' @ text_to_string errorText)))
                else ret ())))
               (\<lambda>loginError.
                  seq (console_warn ''Login navigation failed, setting up mock dashboard'') (\<lambda>_.
                  seq (page_setContent b MOCK_DASHBOARD) (\<lambda>_.
                  console_log ''Mock dashboard loaded for test continuation'')))) (\<lambda>_.
        console_log ''Login successful'')))))
       (\<lambda>error.
          seq (console_error (''Login failed: '' @ to_string error)) (\<lambda>_.
          seq (console_warn ''Continuing with test in mock mode despite login failure'') (\<lambda>_.
          seq (page_setContent b MOCK_DASHBOARD) (\<lambda>_.
          console_log ''Mock dashboard loaded for test continuation despite login failure''))))"

section \<open>pages/watchlistManager/StandardListPage.ts\<close>

text \<open>
  The fields \<open>mainMenuButton\<close>, \<open>watchlistManagerMenu\<close>, \<open>listsMenu\<close>, \<open>standardListsMenu\<close>
  and \<open>euListLink\<close> of this class carry the prefix \<open>sl_\<close>, the page object of the Watchlist
  Manager having fields of the same names.
\<close>

record StandardListPage =
  sl_mainMenuButton :: locator
  sl_watchlistManagerMenu :: locator
  sl_listsMenu :: locator
  sl_standardListsMenu :: locator
  sl_euListLink :: locator
  euNameText :: locator

definition StandardListPage_getSelector ::
  "'p McpSelectorFn option \<Rightarrow> string \<Rightarrow> string \<Rightarrow> (string, 'p) io" where
  \<open>StandardListPage_getSelector mcp description fallbackSelector =
     (let fallback =
            seq (console_log (''Using fallback selector for "'' @ description @ ''": '' @ fallbackSelector))
              (\<lambda>_. ret fallbackSelector)
      in case mcp of
           None \<Rightarrow> fallback
         | Some f \<Rightarrow>
             try_catch
               (seq (f description) (\<lambda>mcpGeneratedSelector.
                seq (console_log (''Using MCP selector for "'' @ description @ ''": '' @
                                  mcpGeneratedSelector))
                  (\<lambda>_. ret mcpGeneratedSelector)))
               (\<lambda>error.
                  seq (console_warn (''Error using MCP selector for "'' @ description @ ''": '' @
                                     to_string error))
                    (\<lambda>_. fallback)))\<close>

text \<open>The five alternatives that the constructor joins into one selector of a menu item.\<close>

definition menu_item_selectors :: "string \<Rightarrow> string" where
  \<open>menu_item_selectors name =
     ''[role="menuitem"]:has-text("'' @ name @ ''"), menuitem:has-text("'' @ name @
     ''"), :text-is("'' @ name @ ''"), :text("'' @ name @ ''"), li:has-text("'' @ name @ ''")''\<close>

definition StandardListPage_new :: "'p McpSelectorFn option \<Rightarrow> (StandardListPage, 'p) io" where
  \<open>StandardListPage_new mcp =
     seq (StandardListPage_getSelector mcp ''main menu'' ''//*[@id="menu-trigger"]'') (\<lambda>s1.
     seq (StandardListPage_getSelector mcp ''watchlist manager menu''
            (''//*[@id="home_watchlistmanagement"], [role="menuitem"]:has-text("'' @
             WATCHLIST_MANAGER NAVIGATION @ ''"), menuitem:has-text("'' @
             WATCHLIST_MANAGER NAVIGATION @ ''"), text="'' @ WATCHLIST_MANAGER NAVIGATION @ ''"'')) (\<lambda>s2.
     seq (StandardListPage_getSelector mcp ''lists menu'' (menu_item_selectors (LISTS NAVIGATION))) (\<lambda>s3.
     seq (StandardListPage_getSelector mcp ''standard lists menu''
            (menu_item_selectors (STANDARD_LISTS NAVIGATION))) (\<lambda>s4.
     seq (StandardListPage_getSelector mcp ''eu list''
            (''a:has-text("'' @ EU_LIST_NAME TEST_DATA @ ''"), text="'' @ EU_LIST_NAME TEST_DATA @ ''"'')) (\<lambda>s5.
     seq (StandardListPage_getSelector mcp ''eu_name''
            (''text="'' @ EU_NAME_TEXT TEST_DATA @ ''", text=eu_name, :has-text("eu_name")'')) (\<lambda>s6.
     seq (console_log ''StandardListPage initialized with MCP selectors:'') (\<lambda>_.
     seq (StandardListPage_getSelector mcp ''main menu'' ''//*[@id="menu-trigger"]'') (\<lambda>l1.
     seq (console_log (''- Main menu: '' @ l1)) (\<lambda>_.
     seq (StandardListPage_getSelector mcp ''watchlist manager menu''
            ''//*[@id="home_watchlistmanagement"]'') (\<lambda>l2.
     seq (console_log (''- Watchlist Manager menu: '' @ l2)) (\<lambda>_.
     seq (StandardListPage_getSelector mcp ''eu list'' ''a:has-text("EU List")'') (\<lambda>l3.
     seq (console_log (''- EU List link: '' @ l3)) (\<lambda>_.
     ret \<lparr>sl_mainMenuButton = Locator s1, sl_watchlistManagerMenu = Locator s2,
          sl_listsMenu = Locator s3, sl_standardListsMenu = Locator s4,
          sl_euListLink = Locator s5, euNameText = Locator s6\<rparr>)))))))))))))\<close>










section \<open>tests/ui/WLM/Synonyms/WLMAgencyList.spec.ts\<close>

text \<open>
  The variables \<open>mcpConnected\<close> and \<open>lastSnapshot\<close> of the module, next to the page under
  test. \<open>test.step\<close> belongs to the test runner: it runs its body and passes on what the body
  returns or throws.
\<close>

record spec_module = browser_page +
  mcpConnected :: bool
  lastSnapshot :: "snapshot option"

definition test_step :: "string \<Rightarrow> ('a, 'p) io \<Rightarrow> ('a, 'p) io" where
  "test_step name body = body"

definition get_mcpConnected :: "(bool, 'x spec_module_scheme) io" where
  "get_mcpConnected w = (Inr (mcpConnected (page w)), w)"

definition set_mcpConnected :: "bool \<Rightarrow> (unit, 'x spec_module_scheme) io" where
  "set_mcpConnected v w = (Inr (), w\<lparr>page := (page w)\<lparr>mcpConnected := v\<rparr>\<rparr>)"

definition set_lastSnapshot :: "snapshot option \<Rightarrow> (unit, 'x spec_module_scheme) io" where
  "set_lastSnapshot v w = (Inr (), w\<lparr>page := (page w)\<lparr>lastSnapshot := v\<rparr>\<rparr>)"

definition useMcpSnapshot :: "browser \<Rightarrow> (snapshot option, 'x spec_module_scheme) io" where
  "useMcpSnapshot b =
     try_catch
       (seq (console_log ''Capturing page snapshot with Playwright MCP...'') (\<lambda>_.
        seq (test_step ''MCP Snapshot''
               (try_catch
                  (seq (perform (answers_snapshot b) (Evaluate ''pageInfo'')) (\<lambda>result. ret (Some result)))
                  (\<lambda>error.
                     seq (console_error (''Error during MCP snapshot: '' @ to_string error))
                       (\<lambda>_. ret None)))) (\<lambda>snapshotResult.
        seq (case snapshotResult of
               Some info \<Rightarrow>
                 seq (console_log (''MCP snapshot captured successfully for: '' @ pageInfo_title info))
                   (\<lambda>_. console_log (''Elements analyzed: '' @
                                      number_to_string (int (elementsCount info))))
             | None \<Rightarrow> console_warn ''MCP snapshot returned no data'') (\<lambda>_.
        ret snapshotResult))))
       (\<lambda>error.
          seq (console_error (''MCP snapshot failed: '' @ to_string error)) (\<lambda>_. ret None))"

text \<open>
  The step of \<open>analyzePage\<close>. Its \<open>catch\<close> block ends without a value, and the function then
  returns the local variable \<open>snapshotResult\<close> as it stands: \<open>null\<close> before
  \<open>useMcpSnapshot\<close> has returned, its result afterwards.
\<close>

definition analyzePage_fallback ::
  "browser \<Rightarrow> snapshot option \<Rightarrow> js_exn \<Rightarrow> (snapshot option, 'x spec_module_scheme) io" where
  "analyzePage_fallback b snapshotResult snapshotError =
     seq (console_error (''Failed to capture MCP snapshot: '' @ to_string snapshotError)) (\<lambda>_.
     seq (page_screenshot b ''./test-results/page-analysis-fallback-'' None) (\<lambda>_.
     ret snapshotResult))"

definition analyzePage_step ::
  "browser \<Rightarrow> string \<Rightarrow> (snapshot option, 'x spec_module_scheme) io" where
  "analyzePage_step b stepDescription w =
     (case useMcpSnapshot b w of
        (Inl snapshotError, w1) \<Rightarrow> analyzePage_fallback b None snapshotError w1
      | (Inr snapshotResult, w1) \<Rightarrow>
          try_catch
            (seq (set_lastSnapshot snapshotResult) (\<lambda>_.
             seq (page_title b) (\<lambda>t.
             seq (console_log (''MCP snapshot captured for: '' @ t)) (\<lambda>_.
             seq (page_url b) (\<lambda>current.
             seq (console_log (''Current URL: '' @ current)) (\<lambda>_.
             seq (console_log (''Snapshot elements captured: '' @
                               (case snapshotResult of None \<Rightarrow> ''No'' | Some _ \<Rightarrow> ''Yes''))) (\<lambda>_.
             seq (page_screenshot b ''./test-results/page-analysis-'' None) (\<lambda>_.
             seq (console_log (stepDescription @ '' analysis completed'')) (\<lambda>_.
             ret snapshotResult)))))))))
            (analyzePage_fallback b snapshotResult) w1)"

text \<open>
  \<open>analyzePage\<close>; the first block yields \<open>True\<close> where the source returns \<open>null\<close> from inside
  it.
\<close>

definition analyzePage :: "browser \<Rightarrow> string \<Rightarrow> (snapshot option, 'x spec_module_scheme) io" where
  "analyzePage b stepDescription =
     try_catch
       (seq (console_log (''Analyzing '' @ stepDescription @ '' using Playwright MCP Server...'')) (\<lambda>_.
        seq get_mcpConnected (\<lambda>connected.
        seq (if \<not> connected then
               seq (console_log ''MCP Server not connected. Attempting to connect...'') (\<lambda>_.
               try_catch
                 (seq (set_mcpConnected True) (\<lambda>_.
                  seq (console_log ''Successfully connected to Playwright MCP Server'') (\<lambda>_.
                  ret False)))
                 (\<lambda>connectionError.
                    seq (console_error (''Failed to connect to MCP Server: '' @
                                        to_string connectionError)) (\<lambda>_.
                    seq (set_mcpConnected False) (\<lambda>_.
                    ret True))))
             else ret False) (\<lambda>returned.
        if returned then ret None
        else
          seq get_mcpConnected (\<lambda>connected.
          if \<not> connected then
            seq (console_log ''MCP Server connection failed. Falling back to basic page analysis.'') (\<lambda>_.
            seq (perform (settles b) (Evaluate ''log title and address'')) (\<lambda>_.
            seq (page_screenshot b ''./test-results/page-analysis-'' None) (\<lambda>_.
            ret None)))
          else
            test_step (''Analyzing '' @ stepDescription @ '' with MCP'')
              (analyzePage_step b stepDescription))))))
       (\<lambda>error.
          seq (console_error (''Failed to analyze page: '' @ to_string error)) (\<lambda>_. ret None))"

section \<open>Vocabulary for statements about repeated invocation\<close>

text \<open>
  \<open>state_before f p j\<close> is the external state after \<open>j\<close> consecutive invocations of \<open>f\<close>
  from \<open>p\<close>, that is, the state in which invocation number \<open>j + 1\<close> starts; \<open>outcome f p j\<close>
  is what that invocation returns or throws.
\<close>

definition state_before :: "('p \<Rightarrow> (js_exn + 'a) \<times> 'p) \<Rightarrow> 'p \<Rightarrow> nat \<Rightarrow> 'p" where
  "state_before f p j = ((\<lambda>s. snd (f s)) ^^ j) p"




section \<open>Sample operations\<close>




section \<open>Sample browsers and page objects\<close>

text \<open>
  The application answering as it does when it is up; the same with one element marked as
  a mock indicator; a browser whose page has been closed, so that every call throws; the
  application with its main menu button never becoming visible.
\<close>

definition application_browser :: browser where
  "application_browser =
     \<lparr>settles = (\<lambda>h c. Inr ()),
      answers_string = (\<lambda>h c. Inr ''NetReveal''),
      answers_text = (\<lambda>h c. Inr None),
      answers_number = (\<lambda>h c. Inr 0),
      answers_boolean = (\<lambda>h c. Inr False),
      answers_snapshot = (\<lambda>h c. Inl (new_Error ''no snapshot'')),
      url_at = (\<lambda>h. ''https://10.222.2.239:8443/netreveal/home.do'')\<rparr>"

definition marked_browser :: browser where
  \<open>marked_browser =
     application_browser\<lparr>answers_number :=
       (\<lambda>h c. if c = Count (Locator ''[data-testid="mock-indicator"]'') then Inr 1 else Inr 0)\<rparr>\<close>

definition closed_browser :: browser where
  "closed_browser =
     \<lparr>settles = (\<lambda>h c. Inl (new_Error ''Target page, context or browser has been closed'')),
      answers_string = (\<lambda>h c. Inl (new_Error ''Target page, context or browser has been closed'')),
      answers_text = (\<lambda>h c. Inl (new_Error ''Target page, context or browser has been closed'')),
      answers_number = (\<lambda>h c. Inl (new_Error ''Target page, context or browser has been closed'')),
      answers_boolean = (\<lambda>h c. Inl (new_Error ''Target page, context or browser has been closed'')),
      answers_snapshot = (\<lambda>h c. Inl (new_Error ''Target page, context or browser has been closed'')),
      url_at = (\<lambda>h. ''about:blank'')\<rparr>"


definition start :: "browser_page world" where
  "start = \<lparr>page = \<lparr>history = []\<rparr>, console = [], timers = []\<rparr>"

text \<open>A selector function that knows one description and throws on any other.\<close>

definition selector_map :: "'p McpSelectorFn" where
  \<open>selector_map description =
     (if description = ''main menu'' then ret ''#menu-trigger''
      else throw (JsError ''TypeError'' ''no selector''))\<close>

text \<open>The page objects that the constructors build when no selector function is given.\<close>

definition wlm_page :: WatchlistManagerPage where
  \<open>wlm_page =
     \<lparr>mainMenuButton = Locator ''//*[@id="menu-trigger"]'',
      watchlistManagerMenu = Locator ''//*[@id="home_watchlistmanagement"]'',
      synonymsMenu = Locator ''//*[@id="home_watchlistmanagement_menu-item_synonyms_path"]'',
      synonymsRulesManagerMenu = Locator ''//*[@id="home_watchlistmanagement_menu-item_synonyms_path_menu-item_synonym_rules_manager_path"]'',
      listsMenu = Locator ''//*[@id="home_watchlistmanagement_home_watchlistmanagement_lists"]'',
      standardListsMenu = Locator ''//*[@id="home_watchlistmanagement_home_watchlistmanagement_lists_home_watchlistmanagement_lists_standard"]'',
      euListLink = Locator ''text=EU List'',
      nameColumnHeader = Locator ''th:has-text("Name")'',
      nameColumnSortIcon = Within (Locator ''th:has-text("Name")'') ''.sort-icon, .sortable-icon'',
      sortColumnHeading = Locator ''//*[@id="SYSWLMPP_Synonym_RS_List_sort0"]'',
      weightedWordsRuleSetLink = Locator ''a:has-text("Weighted words rule set")'',
      agencyRuleText = Locator ''a:has-text("agency rule")''\<rparr>\<close>

definition login_page :: LoginPage where
  \<open>login_page =
     \<lparr>usernameInput = Locator ''//*[@id="forms-text-field-username"]'',
      passwordInput = Locator ''//*[@id="forms-text-field-password"]'',
      loginButton = First (Locator ''button:has-text("Login")''),
      errorMessage = Locator ''.error-message, .alert-error, text:has-text("failed")''\<rparr>\<close>

section \<open>Vocabulary for statements about what the page shows\<close>








section \<open>Vocabulary for statements about the module of the tests\<close>

text \<open>
  A computation is blind to the console when neither its result nor the state it leaves
  depends on what the console holds. \<open>analysis_calls\<close> are the calls that the step of
  \<open>analyzePage\<close> makes on the page. \<open>module_start\<close> is the module before any test has run,
  with the flag of the connection as given.
\<close>

definition console_blind :: "('a, 'p) io \<Rightarrow> bool" where
  "console_blind m \<longleftrightarrow>
     (\<forall>w w'. page w = page w' \<longrightarrow> fst (m w) = fst (m w') \<and> page (snd (m w)) = page (snd (m w')))"

definition analysis_calls :: "call set" where
  "analysis_calls =
     {Evaluate ''pageInfo'', Title, Screenshot ''./test-results/page-analysis-'' None,
      Screenshot ''./test-results/page-analysis-fallback-'' None}"

definition module_start :: "bool \<Rightarrow> spec_module world" where
  "module_start connected =
     \<lparr>page = \<lparr>history = [], mcpConnected = connected, lastSnapshot = None\<rparr>,
      console = [], timers = []\<rparr>"

section \<open>Vocabulary for statements about the strategies\<close>



text \<open>
  The page object of the standard lists as built without a selector function; a browser
  on the lists already, with everything visible; and one with the Watchlist Manager
  expanded and nothing else visible.
\<close>

definition standard_list_page :: StandardListPage where
  \<open>standard_list_page =
     \<lparr>sl_mainMenuButton = Locator ''//*[@id="menu-trigger"]'',
      sl_watchlistManagerMenu = Locator ''//*[@id="home_watchlistmanagement"], [role="menuitem"]:has-text("Watchlist Manager"), menuitem:has-text("Watchlist Manager"), text="Watchlist Manager"'',
      sl_listsMenu = Locator ''[role="menuitem"]:has-text("Lists"), menuitem:has-text("Lists"), :text-is("Lists"), :text("Lists"), li:has-text("Lists")'',
      sl_standardListsMenu = Locator ''[role="menuitem"]:has-text("Standard Lists"), menuitem:has-text("Standard Lists"), :text-is("Standard Lists"), :text("Standard Lists"), li:has-text("Standard Lists")'',
      sl_euListLink = Locator ''a:has-text("EU List"), text="EU List"'',
      euNameText = Locator ''text="eu_name", text=eu_name, :has-text("eu_name")''\<rparr>\<close>



section \<open>Vocabulary for statements about clicks\<close>

text \<open>
  Read off the calls made: \<open>click_calls l h\<close> counts the calls of \<open>click\<close> on the locator
  \<open>l\<close>, \<open>successful_clicks l h\<close> those that resolved, and \<open>presence_checks l h\<close> lists, in
  order, how the waits for \<open>l\<close> to be attached ended (the checks of \<open>elementExists\<close>).
  \<open>tally\<close> says what a computation adds to the three from one world to the next, the
  number of click calls as an upper bound.
\<close>

fun is_click_on :: "locator \<Rightarrow> call \<Rightarrow> bool" where
  "is_click_on l (Click l' frc t) = (l' = l)"
| "is_click_on l c = False"

fun is_presence_check :: "locator \<Rightarrow> call \<Rightarrow> bool" where
  "is_presence_check l (WaitFor l' state t) = (l' = l \<and> state = ''attached'')"
| "is_presence_check l c = False"

definition successful_clicks :: "locator \<Rightarrow> history \<Rightarrow> nat" where
  "successful_clicks l h = length (filter (\<lambda>(c, ok). ok \<and> is_click_on l c) h)"

definition click_calls :: "locator \<Rightarrow> history \<Rightarrow> nat" where
  "click_calls l h = length (filter (\<lambda>(c, ok). is_click_on l c) h)"

definition presence_checks :: "locator \<Rightarrow> history \<Rightarrow> bool list" where
  "presence_checks l h = map snd (filter (\<lambda>(c, ok). is_presence_check l c) h)"

definition tally ::
  "locator \<Rightarrow> locator \<Rightarrow> 'x browser_page_scheme world \<Rightarrow> 'x browser_page_scheme world \<Rightarrow>
   bool list \<Rightarrow> nat \<Rightarrow> nat \<Rightarrow> bool" where
  "tally lk l w w' obs n c \<longleftrightarrow>
     presence_checks lk (history (page w')) = presence_checks lk (history (page w)) @ obs \<and>
     successful_clicks l (history (page w')) = successful_clicks l (history (page w)) + n \<and>
     click_calls l (history (page w')) \<le> click_calls l (history (page w)) + c"

text \<open>
  A browser in which the rule-set link is never attached and every click times out; and
  one in which the link is attached once the heading has been clicked.
\<close>

definition stuck_heading_browser :: browser where
  "stuck_heading_browser =
     application_browser\<lparr>settles :=
       (\<lambda>h c. case c of
                 WaitFor l state t \<Rightarrow>
                   if state = ''attached''
                   then Inl (JsError ''TimeoutError'' ''locator.waitFor: Timeout exceeded.'')
                   else Inr ()
               | Click l frc t \<Rightarrow> Inl (JsError ''TimeoutError'' ''locator.click: Timeout exceeded.'')
               | _ \<Rightarrow> Inr ())\<rparr>"

definition sorting_browser :: browser where
  "sorting_browser =
     application_browser\<lparr>settles :=
       (\<lambda>h c. case c of
                 WaitFor l state t \<Rightarrow>
                   if state = ''attached'' \<and> successful_clicks (sortColumnHeading wlm_page) h = 0
                   then Inl (JsError ''TimeoutError'' ''locator.waitFor: Timeout exceeded.'')
                   else Inr ()
               | _ \<Rightarrow> Inr ())\<rparr>"


section \<open>The retry loop on an operation with its own state\<close>

lemma state_before_0 [simp]: "state_before f p 0 = p"
  by (simp add: state_before_def)








section \<open>Claims about retry\<close>





section \<open>Running a computation on a sample world\<close>

text \<open>
  Equations that run a computation step by step, with congruence rules that keep the
  simplifier out of what follows a step until the step has been run.
\<close>

lemma seq_weak_cong: "m = m' \<Longrightarrow> w = w' \<Longrightarrow> seq m f w = seq m' f w'"
  by simp

lemma try_catch_weak_cong: "m = m' \<Longrightarrow> w = w' \<Longrightarrow> try_catch m h w = try_catch m' h w'"
  by simp

lemma seq_apply:
  "seq m f w = (case m w of (Inl e, w') \<Rightarrow> (Inl e, w') | (Inr v, w') \<Rightarrow> f v w')"
  by (simp add: seq_def)

lemma try_catch_apply:
  "try_catch m h w = (case m w of (Inl e, w') \<Rightarrow> h e w' | (Inr v, w') \<Rightarrow> (Inr v, w'))"
  by (simp add: try_catch_def)

lemma number_to_string_small:
  "number_to_string 1 = ''1''" "number_to_string 2 = ''2''" "number_to_string 3 = ''3''"
  "number_to_string 4 = ''4''" "number_to_string 5 = ''5''"
  by code_simp+

lemmas run = seq_apply try_catch_apply ret_def throw_def console_log_def console_warn_def
  console_error_def console_out_def set_timeout_def perform_def Let_def
  page_goto_def page_setContent_def page_setViewportSize_def page_title_def page_url_def
  page_screenshot_def page_waitForLoadState_def page_waitForTimeout_def locator_count_def
  locator_all_def locator_isVisible_def locator_waitFor_def locator_click_def
  locator_textContent_def locator_clear_def locator_fill_def boolean_to_string_def
  text_to_string_def new_Error_def number_to_string_small TIMEOUTS_def startsWith_def

lemmas run_cong = seq_weak_cong try_catch_weak_cong sum.case_cong_weak prod.case_cong_weak
  option.case_cong_weak

lemma WatchlistManagerPage_getSelector_None:
  \<open>WatchlistManagerPage_getSelector None d fb (w::'p world) =
     (Inr fb, console_out LOG (''Using fallback selector for "'' @ d @ ''": '' @ fb)
                (console_out LOG (''Searching for selector with description: "'' @ d @ ''"'') w))\<close>
  by (simp add: WatchlistManagerPage_getSelector_def seq_def ret_def console_log_def Let_def)

lemma WatchlistManagerPage_new_None: "fst (WatchlistManagerPage_new None (w::'p world)) = Inr wlm_page"
  unfolding WatchlistManagerPage_new_def wlm_page_def
  by (simp add: seq_apply WatchlistManagerPage_getSelector_None console_log_def ret_def TEST_DATA_def
      cong: seq_weak_cong)

lemma LoginPage_getSelector_None:
  \<open>LoginPage_getSelector None d fb (w::'p world) =
     (Inr fb, console_out LOG (''Using fallback selector for "'' @ d @ ''": '' @ fb) w)\<close>
  by (simp add: LoginPage_getSelector_def seq_def ret_def console_log_def Let_def)

lemma LoginPage_new_None: "fst (LoginPage_new None (w::'p world)) = Inr login_page"
  unfolding LoginPage_new_def login_page_def
  by (simp add: seq_apply LoginPage_getSelector_None console_log_def ret_def
      cong: seq_weak_cong)

section \<open>Claim about mock-mode detection\<close>

text \<open>
  C3, as stated: the result of \<open>isRunningInMockMode\<close> is decided by the title and the
  address of the page alone. It is not: the two sample browsers below give the same title
  and the same address, an address of the application itself, and the method answers
  \<open>false\<close> for one and \<open>true\<close> for the other, the second having one element that matches
  \<^verbatim>\<open>[data-testid="mock-indicator"]\<close>.
\<close>

theorem isRunningInMockMode_counterexample:
  "answers_string application_browser (history (page start)) Title =
     answers_string marked_browser (history (page start)) Title \<and>
   url_at application_browser = url_at marked_browser \<and>
   fst (isRunningInMockMode application_browser start) = Inr False \<and>
   fst (isRunningInMockMode marked_browser start) = Inr True"
  by (simp add: application_browser_def marked_browser_def) code_simp

text \<open>
  C3, amended: \<open>isRunningInMockMode\<close> never throws, and its result is decided by the title,
  the address and the numbers of elements matching three locators: it is \<open>true\<close> when the
  title contains \<open>Mock\<close> or \<open>Test Mode\<close>, when the address contains \<open>mock=true\<close> or
  \<open>about:blank\<close> or starts with \<open>data:\<close>, when an element matches one of
  \<^verbatim>\<open>[data-testid="mock-indicator"]\<close>, \<^verbatim>\<open>h1:has-text("NetReveal Mock Dashboard")\<close> and
  \<^verbatim>\<open>p:has-text("mock mode")\<close>, and when one of the queries made on the way throws; it is
  \<open>false\<close> otherwise. The patterns \<open>netreveal\<close> and \<open>https://10.222\<close> of the address choose
  the message logged and nothing else.
\<close>

theorem isRunningInMockMode_decision:
  \<open>fst (isRunningInMockMode b w) =
     Inr (let h0 = history (page w) in
          case answers_string b h0 Title of
            Inl _ \<Rightarrow> True
          | Inr title \<Rightarrow>
              str_includes title ''Mock'' \<or> str_includes title ''Test Mode'' \<or>
              (let h1 = h0 @ [(Title, True)]; url = url_at b h1 in
               str_includes url ''mock=true'' \<or>
               (case answers_number b h1 (Count (Locator ''[data-testid="mock-indicator"]'')) of
                  Inl _ \<Rightarrow> True
                | Inr mockIndicators \<Rightarrow>
                    mockIndicators > 0 \<or>
                    (let h2 = h1 @ [(Count (Locator ''[data-testid="mock-indicator"]''), True)] in
                     case answers_number b h2 (Count (Locator ''h1:has-text("NetReveal Mock Dashboard")'')) of
                       Inl _ \<Rightarrow> True
                     | Inr headings \<Rightarrow>
                         headings > 0 \<or>
                         (let h3 = h2 @ [(Count (Locator ''h1:has-text("NetReveal Mock Dashboard")''), True)] in
                          case answers_number b h3 (Count (Locator ''p:has-text("mock mode")'')) of
                            Inl _ \<Rightarrow> True
                          | Inr paragraphs \<Rightarrow>
                              paragraphs > 0 \<or> startsWith url ''data:'' \<or>
                              str_includes url ''about:blank'')))))\<close>
  by (simp add: isRunningInMockMode_def try_catch_def seq_def ret_def console_log_def
      console_warn_def page_title_def page_url_def locator_count_def perform_def Let_def
      console_out_def split: sum.splits prod.splits)

theorem isRunningInMockMode_decision_witness:
  "fst (isRunningInMockMode closed_browser start) = Inr True"
  using isRunningInMockMode_decision [of closed_browser start]
  by (simp add: closed_browser_def start_def)

section \<open>Claim about selector resolution\<close>

text \<open>
  C10. \<open>getSelector\<close> never throws: without a selector function it returns the fallback
  selector; with one it returns what the function returns, and the fallback selector when
  the function throws. \<open>WatchlistManagerPage\<close> calls the function on the description in
  lower case and trimmed (after a line on the console), \<open>StandardListPage\<close> and \<open>LoginPage\<close>
  on the description as it is.
\<close>

theorem getSelector_falls_back:
  \<open>fst (WatchlistManagerPage_getSelector None description fallbackSelector w) = Inr fallbackSelector \<and>
   fst (StandardListPage_getSelector None description fallbackSelector w) = Inr fallbackSelector \<and>
   fst (LoginPage_getSelector None description fallbackSelector w) = Inr fallbackSelector \<and>
   fst (WatchlistManagerPage_getSelector (Some f) description fallbackSelector w) =
     (case fst (f (trim (toLowerCase description))
                 (console_out LOG (''Searching for selector with description: "'' @ description @ ''"'') w)) of
        Inr mcpGeneratedSelector \<Rightarrow> Inr mcpGeneratedSelector
      | Inl error \<Rightarrow> Inr fallbackSelector) \<and>
   fst (StandardListPage_getSelector (Some f) description fallbackSelector w) =
     (case fst (f description w) of
        Inr mcpGeneratedSelector \<Rightarrow> Inr mcpGeneratedSelector
      | Inl error \<Rightarrow> Inr fallbackSelector) \<and>
   fst (LoginPage_getSelector (Some f) description fallbackSelector w) =
     (case fst (f description w) of
        Inr mcpGeneratedSelector \<Rightarrow> Inr mcpGeneratedSelector
      | Inl error \<Rightarrow> Inr fallbackSelector)\<close>
  by (simp add: WatchlistManagerPage_getSelector_def StandardListPage_getSelector_def
      LoginPage_getSelector_def try_catch_def seq_def ret_def console_log_def console_warn_def
      Let_def split: prod.splits sum.splits)

theorem getSelector_falls_back_witness:
  \<open>fst (WatchlistManagerPage_getSelector (Some selector_map) ''  Main Menu '' ''//*[@id="menu-trigger"]'' start) =
     Inr ''#menu-trigger'' \<and>
   fst (StandardListPage_getSelector (Some selector_map) ''  Main Menu '' ''//*[@id="menu-trigger"]'' start) =
     Inr ''//*[@id="menu-trigger"]'' \<and>
   fst (LoginPage_getSelector (Some selector_map) ''main menu'' ''//*[@id="menu-trigger"]'' start) =
     Inr ''#menu-trigger'' \<and>
   fst (LoginPage_getSelector None ''main menu'' ''//*[@id="menu-trigger"]'' start) =
     Inr ''//*[@id="menu-trigger"]''\<close>
proof -
  have n: "trim (toLowerCase ''  Main Menu '') = ''main menu''"
    by code_simp
  have a: "\<And>w :: browser_page world. fst (selector_map ''main menu'' w) = Inr ''#menu-trigger''"
    by (simp add: selector_map_def ret_def)
  have b: "\<And>w :: browser_page world. isl (fst (selector_map ''  Main Menu '' w))"
    by (simp add: selector_map_def throw_def)
  from getSelector_falls_back [where description = \<open>''  Main Menu ''\<close>
      and fallbackSelector = \<open>''//*[@id="menu-trigger"]''\<close> and w = start and f = selector_map]
    getSelector_falls_back [where description = \<open>''main menu''\<close>
      and fallbackSelector = \<open>''//*[@id="menu-trigger"]''\<close> and w = start and f = selector_map]
  show ?thesis
    using b [of start] by (auto simp: n a split: sum.splits)
qed

section \<open>Claim about catching, logging and throwing again\<close>



lemma console_perform [simp]: "console (snd (perform answer c w)) = console w"
  by (simp add: perform_def Let_def)





section \<open>Claim about failures replaced by a mock page\<close>


lemma retry_unfold:
  "retry_from operation maxRetries delayMs attempt lastError w =
     (if attempt \<le> maxRetries then
        (case operation w of
           (Inr v, w1) \<Rightarrow> (Inr v, w1)
         | (Inl error, w1) \<Rightarrow>
             (let w2 = console_out WARN
                         (''Retry attempt '' @ number_to_string attempt @ ''/'' @
                          number_to_string maxRetries @ '' failed: '' @ to_string error) w1;
                  w3 = (if attempt < maxRetries then set_timeout delayMs w2 else w2)
              in retry_from operation maxRetries delayMs (attempt + 1) (Some error) w3))
      else
        (Inl (new_Error (''Operation failed after '' @ number_to_string maxRetries @
                         '' attempts. Last error: '' @
                         (case lastError of None \<Rightarrow> ''undefined'' | Some e \<Rightarrow> to_string e))), w))"
  by (rule retry_from.simps)

lemma retry_from_weak_cong:
  "w = w' \<Longrightarrow> retry_from operation maxRetries delayMs attempt lastError w =
     retry_from operation maxRetries delayMs attempt lastError w'"
  by simp







section \<open>Claim about the flag of the simulated connection\<close>

lemma console_blindD:
  "console_blind m \<Longrightarrow> page w = page w' \<Longrightarrow>
   fst (m w) = fst (m w') \<and> page (snd (m w)) = page (snd (m w'))"
  unfolding console_blind_def by blast

lemma blind_ret [simp]: "console_blind (ret v)"
  by (simp add: console_blind_def ret_def)

lemma blind_throw [simp]: "console_blind (throw e)"
  by (simp add: console_blind_def throw_def)

lemma blind_console [simp]:
  "console_blind (console_log s)" "console_blind (console_warn s)" "console_blind (console_error s)"
  by (simp_all add: console_blind_def console_log_def console_warn_def console_error_def
      console_out_def)

lemma blind_perform [simp]: "console_blind (perform answer c)"
  by (simp add: console_blind_def perform_def Let_def)

lemma blind_page_url [simp]: "console_blind (page_url b)"
  by (simp add: console_blind_def page_url_def)

lemma blind_module [simp]:
  "console_blind get_mcpConnected" "console_blind (set_mcpConnected v)"
  "console_blind (set_lastSnapshot s)"
  by (simp_all add: console_blind_def get_mcpConnected_def set_mcpConnected_def
      set_lastSnapshot_def)

lemma blind_seq:
  fixes m :: "('a, 'p) io"
  assumes "console_blind m" and "\<And>v. console_blind (f v)"
  shows "console_blind (seq m f)"
  unfolding console_blind_def
proof (intro allI impI)
  fix w w' :: "'p world"
  assume eq: "page w = page w'"
  obtain r w1 where m: "m w = (r, w1)" by (cases "m w")
  obtain r' w1' where m': "m w' = (r', w1')" by (cases "m w'")
  from console_blindD [OF assms(1) eq] m m' have r: "r' = r" and p: "page w1 = page w1'"
    by simp_all
  show "fst (seq m f w) = fst (seq m f w') \<and> page (snd (seq m f w)) = page (snd (seq m f w'))"
  proof (cases r)
    case (Inl e)
    with m m' r p show ?thesis by (simp add: seq_def)
  next
    case (Inr v)
    with m m' r console_blindD [OF assms(2) p, of v] show ?thesis by (simp add: seq_def)
  qed
qed

lemma blind_try_catch:
  fixes m :: "('a, 'p) io"
  assumes "console_blind m" and "\<And>e. console_blind (h e)"
  shows "console_blind (try_catch m h)"
  unfolding console_blind_def
proof (intro allI impI)
  fix w w' :: "'p world"
  assume eq: "page w = page w'"
  obtain r w1 where m: "m w = (r, w1)" by (cases "m w")
  obtain r' w1' where m': "m w' = (r', w1')" by (cases "m w'")
  from console_blindD [OF assms(1) eq] m m' have r: "r' = r" and p: "page w1 = page w1'"
    by simp_all
  show "fst (try_catch m h w) = fst (try_catch m h w') \<and>
        page (snd (try_catch m h w)) = page (snd (try_catch m h w'))"
  proof (cases r)
    case (Inl e)
    with m m' r console_blindD [OF assms(2) p, of e] show ?thesis by (simp add: try_catch_def)
  next
    case (Inr v)
    with m m' r p show ?thesis by (simp add: try_catch_def)
  qed
qed

lemma blind_if:
  "(c \<Longrightarrow> console_blind m) \<Longrightarrow> (\<not> c \<Longrightarrow> console_blind n) \<Longrightarrow> console_blind (if c then m else n)"
  by simp

lemma blind_case_option:
  "(x = None \<Longrightarrow> console_blind m) \<Longrightarrow> (\<And>v. x = Some v \<Longrightarrow> console_blind (f v)) \<Longrightarrow>
   console_blind (case x of None \<Rightarrow> m | Some v \<Rightarrow> f v)"
  by (cases x) simp_all

lemma blind_useMcpSnapshot: "console_blind (useMcpSnapshot b)"
  unfolding useMcpSnapshot_def test_step_def by (intro blind_seq blind_try_catch blind_case_option blind_console blind_ret blind_perform)

lemma blind_analyzePage_fallback: "console_blind (analyzePage_fallback b s e)"
  unfolding analyzePage_fallback_def page_screenshot_def
  by (intro blind_seq blind_console blind_ret blind_perform)

lemma blind_analyzePage_step: "console_blind (analyzePage_step b sd)"
  unfolding console_blind_def
proof (intro allI impI)
  fix w w' :: "'a spec_module_scheme world"
  assume eq: "page w = page w'"
  obtain r w1 where m: "useMcpSnapshot b w = (r, w1)" by (cases "useMcpSnapshot b w")
  obtain r' w1' where m': "useMcpSnapshot b w' = (r', w1')" by (cases "useMcpSnapshot b w'")
  from console_blindD [OF blind_useMcpSnapshot eq, of b] m m'
  have r: "r' = r" and p: "page w1 = page w1'"
    by simp_all
  show "fst (analyzePage_step b sd w) = fst (analyzePage_step b sd w') \<and>
        page (snd (analyzePage_step b sd w)) = page (snd (analyzePage_step b sd w'))"
  proof (cases r)
    case (Inl e)
    with m m' r console_blindD [OF blind_analyzePage_fallback p, of b None e]
    show ?thesis by (simp add: analyzePage_step_def)
  next
    case (Inr v)
    have "console_blind (try_catch
            (seq (set_lastSnapshot v) (\<lambda>_.
             seq (page_title b) (\<lambda>t.
             seq (console_log (''MCP snapshot captured for: '' @ t)) (\<lambda>_.
             seq (page_url b) (\<lambda>current.
             seq (console_log (''Current URL: '' @ current)) (\<lambda>_.
             seq (console_log (''Snapshot elements captured: '' @
                               (case v of None \<Rightarrow> ''No'' | Some _ \<Rightarrow> ''Yes''))) (\<lambda>_.
             seq (page_screenshot b ''./test-results/page-analysis-'' None) (\<lambda>_.
             seq (console_log (sd @ '' analysis completed'')) (\<lambda>_.
             ret v)))))))))
            (analyzePage_fallback b v))"
      unfolding page_title_def page_screenshot_def
      by (intro blind_try_catch blind_seq blind_console blind_ret blind_perform blind_module
          blind_page_url blind_analyzePage_fallback)
    from console_blindD [OF this p] m m' r Inr
    show ?thesis by (simp add: analyzePage_step_def)
  qed
qed

lemma analyzePage_reaches_step:
  "analyzePage b sd w =
     try_catch (analyzePage_step b sd)
       (\<lambda>error. seq (console_error (''Failed to analyze page: '' @ to_string error)) (\<lambda>_. ret None))
       (w\<lparr>page := (page w)\<lparr>mcpConnected := True\<rparr>,
          console := console w @
            (LOG, ''Analyzing '' @ sd @ '' using Playwright MCP Server...'') #
            (if mcpConnected (page w) then []
             else [(LOG, ''MCP Server not connected. Attempting to connect...''),
                   (LOG, ''Successfully connected to Playwright MCP Server'')])\<rparr>)"
proof (cases "mcpConnected (page w)")
  case True
  then have same: "(page w)\<lparr>mcpConnected := True\<rparr> = page w"
    by (cases "page w") simp
  from True show ?thesis
    unfolding analyzePage_def test_step_def same
    by (simp add: seq_apply try_catch_apply get_mcpConnected_def
        console_log_def console_out_def ret_def cong: run_cong)
next
  case False
  then show ?thesis
    unfolding analyzePage_def test_step_def
    by (simp add: seq_apply try_catch_apply get_mcpConnected_def set_mcpConnected_def
        console_log_def console_out_def ret_def cong: run_cong)
qed

lemma blind_analyzePage_rest:
  "console_blind (try_catch (analyzePage_step b sd)
       (\<lambda>error. seq (console_error (''Failed to analyze page: '' @ to_string error)) (\<lambda>_. ret None)))"
  by (intro blind_try_catch blind_seq blind_console blind_ret blind_analyzePage_step)

lemma history_analyzePage_step:
  "\<exists>d. history (page (snd (try_catch (analyzePage_step b sd)
       (\<lambda>error. seq (console_error (''Failed to analyze page: '' @ to_string error)) (\<lambda>_. ret None)) w))) =
        history (page w) @ d \<and> fst ` set d \<subseteq> analysis_calls"
  unfolding analyzePage_step_def useMcpSnapshot_def analyzePage_fallback_def test_step_def
    analysis_calls_def
  by (auto simp add: run set_lastSnapshot_def split: prod.splits sum.splits option.splits
      cong: run_cong)

text \<open>
  C7. The flag \<open>mcpConnected\<close> has no bearing on \<open>analyzePage\<close>: two runs that differ in
  the initial value of the flag alone return the same snapshot and leave the same state
  of the module and of the page (the flag, the last snapshot, the calls made); only the
  console differs, by the two lines of the connection attempt. The flag is true after
  every run, and the call of the branch guarded by the flag being false, the evaluation
  that logs the title and the address, is never made.
\<close>

theorem analyzePage_ignores_mcpConnected:
  "fst (analyzePage b stepDescription (w\<lparr>page := (page w)\<lparr>mcpConnected := connected\<rparr>\<rparr>)) =
     fst (analyzePage b stepDescription (w\<lparr>page := (page w)\<lparr>mcpConnected := connected'\<rparr>\<rparr>)) \<and>
   page (snd (analyzePage b stepDescription (w\<lparr>page := (page w)\<lparr>mcpConnected := connected\<rparr>\<rparr>))) =
     page (snd (analyzePage b stepDescription (w\<lparr>page := (page w)\<lparr>mcpConnected := connected'\<rparr>\<rparr>))) \<and>
   mcpConnected (page (snd (analyzePage b stepDescription w))) = True \<and>
   (\<exists>d. history (page (snd (analyzePage b stepDescription w))) = history (page w) @ d \<and>
        (Evaluate ''log title and address'', True) \<notin> set d \<and>
        (Evaluate ''log title and address'', False) \<notin> set d)"
proof -
  let ?rest = "try_catch (analyzePage_step b stepDescription)
       (\<lambda>error. seq (console_error (''Failed to analyze page: '' @ to_string error)) (\<lambda>_. ret None))"
  let ?w = "\<lambda>c. w\<lparr>page := (page w)\<lparr>mcpConnected := c\<rparr>\<rparr>"
  let ?start = "\<lambda>v. v\<lparr>page := (page v)\<lparr>mcpConnected := True\<rparr>,
          console := console v @
            (LOG, ''Analyzing '' @ stepDescription @ '' using Playwright MCP Server...'') #
            (if mcpConnected (page v) then []
             else [(LOG, ''MCP Server not connected. Attempting to connect...''),
                   (LOG, ''Successfully connected to Playwright MCP Server'')])\<rparr>"
  have indep: "fst (analyzePage b stepDescription (?w connected)) =
                 fst (analyzePage b stepDescription (?w connected')) \<and>
               page (snd (analyzePage b stepDescription (?w connected))) =
                 page (snd (analyzePage b stepDescription (?w connected')))"
    unfolding analyzePage_reaches_step
    by (rule console_blindD [OF blind_analyzePage_rest]) simp
  have "\<exists>d. history (page (snd (analyzePage b stepDescription w))) = history (page w) @ d \<and>
             fst ` set d \<subseteq> analysis_calls"
    unfolding analyzePage_reaches_step
    using history_analyzePage_step [of b stepDescription "?start w"] by simp
  then obtain d where d: "history (page (snd (analyzePage b stepDescription w))) = history (page w) @ d"
    and calls: "fst ` set d \<subseteq> analysis_calls"
    by blast
  have no: "(Evaluate ''log title and address'', ok) \<notin> set d" for ok
  proof
    assume "(Evaluate ''log title and address'', ok) \<in> set d"
    then have "Evaluate ''log title and address'' \<in> fst ` set d" by force
    with calls show False by (auto simp: analysis_calls_def)
  qed
  have flag: "mcpConnected (page (snd (?rest v))) = mcpConnected (page v)" for v :: "'a spec_module_scheme world"
    unfolding analyzePage_step_def useMcpSnapshot_def analyzePage_fallback_def test_step_def
    by (auto simp add: run set_lastSnapshot_def split: prod.splits sum.splits option.splits
        cong: run_cong)
  have connected: "mcpConnected (page (snd (analyzePage b stepDescription w))) = True"
    unfolding analyzePage_reaches_step flag by simp
  from indep connected d no show ?thesis by blast
qed

theorem analyzePage_ignores_mcpConnected_witness:
  "fst (analyzePage application_browser ''login page'' (module_start False)) =
     fst (analyzePage application_browser ''login page'' (module_start True)) \<and>
   page (snd (analyzePage application_browser ''login page'' (module_start False))) =
     page (snd (analyzePage application_browser ''login page'' (module_start True))) \<and>
   mcpConnected (page (snd (analyzePage application_browser ''login page'' (module_start False))))"
proof -
  have f: "(module_start True)\<lparr>page := (page (module_start True))\<lparr>mcpConnected := False\<rparr>\<rparr> =
           module_start False"
    and t: "(module_start True)\<lparr>page := (page (module_start True))\<lparr>mcpConnected := True\<rparr>\<rparr> =
           module_start True"
    by (simp_all add: module_start_def)
  from analyzePage_ignores_mcpConnected [where b = application_browser
      and stepDescription = "''login page''" and w = "module_start True"
      and connected = False and connected' = True]
    analyzePage_ignores_mcpConnected [where b = application_browser
      and stepDescription = "''login page''" and w = "module_start False"]
  show ?thesis
    unfolding f t by blast
qed

section \<open>Claim about the strategies of the Lists menu\<close>

lemma StandardListPage_getSelector_None:
  \<open>StandardListPage_getSelector None d fb (w::'p world) =
     (Inr fb, console_out LOG (''Using fallback selector for "'' @ d @ ''": '' @ fb) w)\<close>
  by (simp add: StandardListPage_getSelector_def seq_def ret_def console_log_def Let_def)

lemma StandardListPage_new_None:
  "fst (StandardListPage_new None (w::'p world)) = Inr standard_list_page"
  unfolding StandardListPage_new_def standard_list_page_def
  by (simp add: seq_apply StandardListPage_getSelector_None console_log_def ret_def TEST_DATA_def
      NAVIGATION_def menu_item_selectors_def cong: seq_weak_cong)














section \<open>Claim about sorting the Name column\<close>

lemma tally_refl [simp]: "tally lk l w w [] 0 0"
  by (simp add: tally_def)

lemma tally_trans:
  "tally lk l w w' obs n c \<Longrightarrow> tally lk l w' w'' obs' n' c' \<Longrightarrow>
   tally lk l w w'' (obs @ obs') (n + n') (c + c')"
  by (auto simp: tally_def)

lemma tally_weaken: "tally lk l w w' obs n c \<Longrightarrow> c \<le> c' \<Longrightarrow> tally lk l w w' obs n c'"
  by (auto simp: tally_def)

lemma tally_same_page: "page w' = page w \<Longrightarrow> tally lk l w w' [] 0 0"
  by (simp add: tally_def)

lemma tally_console [simp]: "tally lk l w (console_out lv s w) [] 0 0"
  by (simp add: tally_def console_out_def)

lemma tally_console_after:
  "tally lk l w w' obs n c \<Longrightarrow> c \<le> c' \<Longrightarrow> tally lk l w (console_out lv s w') obs n c'"
  by (simp add: tally_def console_out_def)

lemma tally_perform:
  "tally lk l w (snd (perform answer c w))
     (if is_presence_check lk c then [\<not> isl (answer (history (page w)) c)] else [])
     (if is_click_on l c \<and> \<not> isl (answer (history (page w)) c) then 1 else 0)
     (if is_click_on l c then 1 else 0)"
  by (simp add: tally_def perform_def Let_def presence_checks_def successful_clicks_def
      click_calls_def)

text \<open>One attempt of \<open>safeClick\<close>.\<close>

lemma tally_attempt:
  "tally lk l w (snd (seq (waitForElement b l t) (\<lambda>_. locator_click b l frc t) w)) []
     (if isl (fst (seq (waitForElement b l t) (\<lambda>_. locator_click b l frc t) w)) then 0 else 1) 1"
  by (auto simp add: tally_def seq_def waitForElement_def try_catch_def locator_waitFor_def
      locator_click_def perform_def Let_def console_error_def throw_def console_out_def
      presence_checks_def successful_clicks_def click_calls_def
      split: prod.splits sum.splits)

lemma tally_retry_from:
  assumes step: "\<And>w. tally lk l w (snd (operation w)) [] (if isl (fst (operation w)) then 0 else 1) 1"
  shows "maxRetries + 1 - attempt = int n \<Longrightarrow>
         tally lk l w (snd (retry_from operation maxRetries delayMs attempt lastError w)) []
           (if isl (fst (retry_from operation maxRetries delayMs attempt lastError w)) then 0 else 1) n"
proof (induction n arbitrary: attempt lastError w)
  case 0
  then have "\<not> attempt \<le> maxRetries" by simp
  then show ?case
    by (subst (1 2) retry_from.simps) simp
next
  case (Suc n)
  then have le: "attempt \<le> maxRetries" by simp
  obtain r w1 where op: "operation w = (r, w1)" by (cases "operation w")
  show ?case
  proof (cases r)
    case (Inr v)
    from step [of w] op Inr have "tally lk l w w1 [] 1 1" by simp
    then have "tally lk l w w1 [] 1 (Suc n)" by (rule tally_weaken) simp
    with op Inr le show ?thesis
      by (subst (1 2) retry_from.simps) simp
  next
    case (Inl e)
    from step [of w] op Inl have first: "tally lk l w w1 [] 0 1" by simp
    define w2 where "w2 = console_out WARN
                         (''Retry attempt '' @ number_to_string attempt @ ''/'' @
                          number_to_string maxRetries @ '' failed: '' @ to_string e) w1"
    define w3 where "w3 = (if attempt < maxRetries then set_timeout delayMs w2 else w2)"
    have unfold: "retry_from operation maxRetries delayMs attempt lastError w =
                retry_from operation maxRetries delayMs (attempt + 1) (Some e) w3"
      using op Inl le by (subst retry_from.simps) (simp add: Let_def w2_def w3_def)
    have "page w3 = page w1"
      by (simp add: w3_def w2_def console_out_def set_timeout_def)
    then have "tally lk l w1 w3 [] 0 0" by (rule tally_same_page)
    from tally_trans [OF first this] have to3: "tally lk l w w3 [] 0 1" by simp
    from Suc.prems have "maxRetries + 1 - (attempt + 1) = int n" by simp
    from tally_trans [OF to3 Suc.IH [OF this, where lastError = "Some e" and w = w3]]
    show ?thesis unfolding unfold by simp
  qed
qed

lemma tally_safeClick:
  "tally lk l w (snd (safeClick b l options w)) []
     (if isl (fst (safeClick b l options w)) then 0 else 1) 3"
  unfolding safeClick_def Let_def retry_def
  by (rule tally_retry_from [OF tally_attempt]) simp

lemma elementExists_run:
  "elementExists b lk t w =
     (Inr (\<not> isl (settles b (history (page w)) (WaitFor lk ''attached'' t))),
      snd (elementExists b lk t w)) \<and>
   tally lk l w (snd (elementExists b lk t w))
     [\<not> isl (settles b (history (page w)) (WaitFor lk ''attached'' t))] 0 0"
  by (auto simp add: elementExists_def try_catch_def seq_def ret_def locator_waitFor_def
      perform_def Let_def tally_def presence_checks_def successful_clicks_def click_calls_def
      split: sum.splits)

lemma tally_waitForTimeout: "tally lk l w (snd (page_waitForTimeout b t w)) [] 0 0"
  unfolding page_waitForTimeout_def using tally_perform [of lk l w "settles b" "WaitForTimeout t"]
  by simp


lemma sort_tally:
  fixes w :: "'x browser_page_scheme world"
  shows "\<exists>obs n. tally (weightedWordsRuleSetLink this) (sortColumnHeading this) w
                  (snd (sortNameColumnIfNeeded b this w)) obs n 6 \<and>
           (case fst (sortNameColumnIfNeeded b this w) of
              Inr u \<Rightarrow> (obs = [True] \<and> n = 0) \<or> (obs = [False, True] \<and> n = 1) \<or>
                       (obs = [False, False] \<and> n = 2)
            | Inl e \<Rightarrow> (obs = [False] \<and> (n = 0 \<or> n = 1)) \<or>
                       (obs = [False, False] \<and> (n = 1 \<or> n = 2)))"
proof -
  let ?lk = "weightedWordsRuleSetLink this" and ?l = "sortColumnHeading this"
  let ?R = "sortNameColumnIfNeeded b this w"
  define w1 where "w1 = console_out LOG ''Checking if rule set is visible'' w"
  define ex1 where "ex1 = (\<not> isl (settles b (history (page w1)) (WaitFor ?lk ''attached'' 5000)))"
  define w2 where "w2 = snd (elementExists b ?lk 5000 w1)"
  have e1: "elementExists b ?lk 5000 w1 = (Inr ex1, w2)"
    and t12: "tally ?lk ?l w1 w2 [ex1] 0 0"
    using elementExists_run [of b ?lk 5000 w1 ?l] by (simp_all add: ex1_def w2_def)
  have t01: "tally ?lk ?l w w1 [] 0 0" by (simp add: w1_def)
  from tally_trans [OF t01 t12] have t02: "tally ?lk ?l w w2 [ex1] 0 0" by simp
  note defs = sortNameColumnIfNeeded_def seq_apply try_catch_apply console_log_def
    console_error_def throw_def ret_def
  show ?thesis
  proof (cases ex1)
    case True
    have run: "?R = (Inr (), console_out LOG ''Name column sorted if needed'' w2)"
      using True by (simp add: defs w1_def [symmetric] e1 cong: run_cong)
    from t02 True have "tally ?lk ?l w w2 [True] 0 0" by simp
    then have "tally ?lk ?l w (snd ?R) [True] 0 6"
      unfolding run snd_conv by (rule tally_console_after) simp
    with run show ?thesis by (intro exI [of _ "[True]"] exI [of _ 0]) simp
  next
    case False
    define w3 where \<open>w3 = console_out LOG ''Rule set not visible, sorting Name column using XPath: //*[@id="SYSWLMPP_Synonym_RS_List_sort0"]'' w2\<close>
    obtain r4 w4 where c4: "safeClick b ?l None w3 = (r4, w4)" by (cases "safeClick b ?l None w3")
    from tally_safeClick [of ?lk ?l w3 b None] c4
    have t34: "tally ?lk ?l w3 w4 [] (if isl r4 then 0 else 1) 3" by simp
    have t23: "tally ?lk ?l w2 w3 [] 0 0" by (simp add: w3_def)
    from tally_trans [OF tally_trans [OF t02 t23] t34] False
    have t04: "tally ?lk ?l w w4 [False] (if isl r4 then 0 else 1) 3" by simp
    show ?thesis
    proof (cases r4)
      case (Inl e)
      have run: "?R = (Inl (new_Error (''Failed to sort Name column: '' @ to_string e)),
                       console_out ERROR (''Failed to sort Name column: '' @ to_string e) w4)"
        using False Inl
        by (simp add: defs w1_def [symmetric] e1 w3_def [symmetric] c4 cong: run_cong)
      from t04 Inl have "tally ?lk ?l w w4 [False] 0 3" by simp
      then have "tally ?lk ?l w (snd ?R) [False] 0 6"
        unfolding run snd_conv by (rule tally_console_after) simp
      with run show ?thesis by (intro exI [of _ "[False]"] exI [of _ 0]) simp
    next
      case (Inr u4)
      obtain r5 w5 where c5: "page_waitForTimeout b 1000 w4 = (r5, w5)"
        by (cases "page_waitForTimeout b 1000 w4")
      from tally_waitForTimeout [of ?lk ?l w4 b 1000] c5
      have t45: "tally ?lk ?l w4 w5 [] 0 0" by simp
      from tally_trans [OF t04 t45] Inr
      have t05: "tally ?lk ?l w w5 [False] 1 3" by simp
      show ?thesis
      proof (cases r5)
        case (Inl e)
        have run: "?R = (Inl (new_Error (''Failed to sort Name column: '' @ to_string e)),
                         console_out ERROR (''Failed to sort Name column: '' @ to_string e) w5)"
          using False Inr Inl
          by (simp add: defs w1_def [symmetric] e1 w3_def [symmetric] c4 c5 cong: run_cong)
        from t05  have "tally ?lk ?l w w5 [False] 1 3" by simp
        then have "tally ?lk ?l w (snd ?R) [False] 1 6"
          unfolding run snd_conv by (rule tally_console_after) simp
        with run show ?thesis by (intro exI [of _ "[False]"] exI [of _ 1]) simp
      next
        case r5: (Inr u5)
        define ex2 where "ex2 = (\<not> isl (settles b (history (page w5)) (WaitFor ?lk ''attached'' 5000)))"
        define w6 where "w6 = snd (elementExists b ?lk 5000 w5)"
        have e2: "elementExists b ?lk 5000 w5 = (Inr ex2, w6)"
          and t56: "tally ?lk ?l w5 w6 [ex2] 0 0"
          using elementExists_run [of b ?lk 5000 w5 ?l] by (simp_all add: ex2_def w6_def)
        from tally_trans [OF t05 t56] have t06: "tally ?lk ?l w w6 [False, ex2] 1 3" by simp
        show ?thesis
        proof (cases ex2)
          case True
          have run: "?R = (Inr (), console_out LOG ''Name column sorted if needed'' w6)"
            using False Inr r5 True
            by (simp add: defs w1_def [symmetric] e1 w3_def [symmetric] c4 c5 e2 cong: run_cong)
          from t06 True have "tally ?lk ?l w w6 [False, True] 1 3" by simp
          then have "tally ?lk ?l w (snd ?R) [False, True] 1 6"
            unfolding run snd_conv by (rule tally_console_after) simp
          with run show ?thesis by (intro exI [of _ "[False, True]"] exI [of _ 1]) simp
        next
          case ex2: False
          define w7 where "w7 = console_out LOG ''Rule set not visible after first sort, trying reverse sort'' w6"
          obtain r8 w8 where c8: "safeClick b ?l None w7 = (r8, w8)" by (cases "safeClick b ?l None w7")
          from tally_safeClick [of ?lk ?l w7 b None] c8
          have t78: "tally ?lk ?l w7 w8 [] (if isl r8 then 0 else 1) 3" by simp
          have t67: "tally ?lk ?l w6 w7 [] 0 0" by (simp add: w7_def)
          from tally_trans [OF tally_trans [OF t06 t67] t78] ex2
          have t08: "tally ?lk ?l w w8 [False, False] (1 + (if isl r8 then 0 else 1)) 6" by simp
          show ?thesis
          proof (cases r8)
            case (Inl e)
            have run: "?R = (Inl (new_Error (''Failed to sort Name column: '' @ to_string e)),
                             console_out ERROR (''Failed to sort Name column: '' @ to_string e) w8)"
              using False Inr r5 ex2 Inl
              by (simp add: defs w1_def [symmetric] e1 w3_def [symmetric] c4 c5 e2
                  w7_def [symmetric] c8 cong: run_cong)
            from t08 Inl have "tally ?lk ?l w w8 [False, False] 1 6" by simp
            then have "tally ?lk ?l w (snd ?R) [False, False] 1 6"
              unfolding run snd_conv by (rule tally_console_after) simp
            with run show ?thesis by (intro exI [of _ "[False, False]"] exI [of _ 1]) simp
          next
            case r8: (Inr u8)
            obtain r9 w9 where c9: "page_waitForTimeout b 1000 w8 = (r9, w9)"
              by (cases "page_waitForTimeout b 1000 w8")
            from tally_waitForTimeout [of ?lk ?l w8 b 1000] c9
            have t89: "tally ?lk ?l w8 w9 [] 0 0" by simp
            from tally_trans [OF t08 t89] r8
            have t09: "tally ?lk ?l w w9 [False, False] 2 6" by (simp add: numeral_2_eq_2)
            show ?thesis
            proof (cases r9)
              case (Inl e)
              have run: "?R = (Inl (new_Error (''Failed to sort Name column: '' @ to_string e)),
                               console_out ERROR (''Failed to sort Name column: '' @ to_string e) w9)"
                using False Inr r5 ex2 r8 Inl
                by (simp add: defs w1_def [symmetric] e1 w3_def [symmetric] c4 c5 e2
                    w7_def [symmetric] c8 c9 cong: run_cong)
              from t09  have "tally ?lk ?l w w9 [False, False] 2 6" by simp
              then have "tally ?lk ?l w (snd ?R) [False, False] 2 6"
                unfolding run snd_conv by (rule tally_console_after) simp
              with run show ?thesis by (intro exI [of _ "[False, False]"] exI [of _ 2]) simp
            next
              case r9: (Inr u9)
              have run: "?R = (Inr (), console_out LOG ''Name column sorted if needed'' w9)"
                using False Inr r5 ex2 r8 r9
                by (simp add: defs w1_def [symmetric] e1 w3_def [symmetric] c4 c5 e2
                    w7_def [symmetric] c8 c9 cong: run_cong)
              from t09  have "tally ?lk ?l w w9 [False, False] 2 6" by simp
              then have "tally ?lk ?l w (snd ?R) [False, False] 2 6"
                unfolding run snd_conv by (rule tally_console_after) simp
              with run show ?thesis by (intro exI [of _ "[False, False]"] exI [of _ 2]) simp
            qed
          qed
        qed
      qed
    qed
  qed
qed

text \<open>
  C9, as stated: the number of clicks on the heading is two whenever the link is absent at
  the start and after the first sort. With the link never attached and every click timing
  out, the first \<open>safeClick\<close> calls \<open>click\<close> three times, none of them resolves, and
  \<open>sortNameColumnIfNeeded\<close> throws: three click calls, no click made.
\<close>

theorem sortNameColumnIfNeeded_counterexample:
  "fst (sortNameColumnIfNeeded stuck_heading_browser wlm_page start) =
     Inl (new_Error ''Failed to sort Name column: Error: Operation failed after 3 attempts. Last error: TimeoutError: locator.click: Timeout exceeded.'') \<and>
   history (page (snd (sortNameColumnIfNeeded stuck_heading_browser wlm_page start))) =
     [(WaitFor (weightedWordsRuleSetLink wlm_page) ''attached'' 5000, False),
      (WaitFor (sortColumnHeading wlm_page) ''visible'' 15000, True),
      (Click (sortColumnHeading wlm_page) None 15000, False),
      (WaitFor (sortColumnHeading wlm_page) ''visible'' 15000, True),
      (Click (sortColumnHeading wlm_page) None 15000, False),
      (WaitFor (sortColumnHeading wlm_page) ''visible'' 15000, True),
      (Click (sortColumnHeading wlm_page) None 15000, False)] \<and>
   successful_clicks (sortColumnHeading wlm_page)
     (history (page (snd (sortNameColumnIfNeeded stuck_heading_browser wlm_page start)))) = 0 \<and>
   click_calls (sortColumnHeading wlm_page)
     (history (page (snd (sortNameColumnIfNeeded stuck_heading_browser wlm_page start)))) = 3"
proof -
  have run: "fst (sortNameColumnIfNeeded stuck_heading_browser wlm_page start) =
     Inl (new_Error ''Failed to sort Name column: Error: Operation failed after 3 attempts. Last error: TimeoutError: locator.click: Timeout exceeded.'') \<and>
   history (page (snd (sortNameColumnIfNeeded stuck_heading_browser wlm_page start))) =
     [(WaitFor (weightedWordsRuleSetLink wlm_page) ''attached'' 5000, False),
      (WaitFor (sortColumnHeading wlm_page) ''visible'' 15000, True),
      (Click (sortColumnHeading wlm_page) None 15000, False),
      (WaitFor (sortColumnHeading wlm_page) ''visible'' 15000, True),
      (Click (sortColumnHeading wlm_page) None 15000, False),
      (WaitFor (sortColumnHeading wlm_page) ''visible'' 15000, True),
      (Click (sortColumnHeading wlm_page) None 15000, False)]"
    by (simp add: run sortNameColumnIfNeeded_def elementExists_def safeClick_def retry_def
        waitForElement_def retry_unfold stuck_heading_browser_def application_browser_def
        start_def wlm_page_def cong: run_cong retry_from_weak_cong)
  then show ?thesis
    by (simp add: successful_clicks_def click_calls_def)
qed

text \<open>
  C9, amended: \<open>sortNameColumnIfNeeded\<close> checks the presence of the link once or twice and
  makes at most two clicks on the heading, each through \<open>safeClick\<close>, which calls \<open>click\<close>
  up to three times (six calls at most). When it returns, the clicks made are none if the
  link was present at the first check, one if it was absent at the first and present at
  the second, two if it was absent at both. When a \<open>safeClick\<close> or the wait after it
  throws, it throws, after one check and no or one click, or after two checks and one or
  two clicks.
\<close>

theorem sortNameColumnIfNeeded_clicks:
  "\<exists>obs n.
     presence_checks (weightedWordsRuleSetLink this)
         (history (page (snd (sortNameColumnIfNeeded b this w)))) =
       presence_checks (weightedWordsRuleSetLink this) (history (page w)) @ obs \<and>
     successful_clicks (sortColumnHeading this)
         (history (page (snd (sortNameColumnIfNeeded b this w)))) =
       successful_clicks (sortColumnHeading this) (history (page w)) + n \<and>
     click_calls (sortColumnHeading this)
         (history (page (snd (sortNameColumnIfNeeded b this w)))) \<le>
       click_calls (sortColumnHeading this) (history (page w)) + 6 \<and>
     (case fst (sortNameColumnIfNeeded b this w) of
        Inr u \<Rightarrow> (obs = [True] \<and> n = 0) \<or> (obs = [False, True] \<and> n = 1) \<or>
                 (obs = [False, False] \<and> n = 2)
      | Inl e \<Rightarrow> (obs = [False] \<and> (n = 0 \<or> n = 1)) \<or>
                 (obs = [False, False] \<and> (n = 1 \<or> n = 2)))"
  using sort_tally [of this w b] unfolding tally_def by blast

lemma sorting_run:
  "fst (sortNameColumnIfNeeded sorting_browser wlm_page start) = Inr () \<and>
   history (page (snd (sortNameColumnIfNeeded sorting_browser wlm_page start))) =
     [(WaitFor (weightedWordsRuleSetLink wlm_page) ''attached'' 5000, False),
      (WaitFor (sortColumnHeading wlm_page) ''visible'' 15000, True),
      (Click (sortColumnHeading wlm_page) None 15000, True),
      (WaitForTimeout 1000, True),
      (WaitFor (weightedWordsRuleSetLink wlm_page) ''attached'' 5000, True)]"
  by (simp add: run sortNameColumnIfNeeded_def elementExists_def safeClick_def retry_def
      waitForElement_def retry_unfold sorting_browser_def application_browser_def start_def
      wlm_page_def successful_clicks_def cong: run_cong retry_from_weak_cong)

theorem sortNameColumnIfNeeded_clicks_witness:
  "fst (sortNameColumnIfNeeded sorting_browser wlm_page start) = Inr () \<and>
   presence_checks (weightedWordsRuleSetLink wlm_page)
     (history (page (snd (sortNameColumnIfNeeded sorting_browser wlm_page start)))) = [False, True] \<and>
   successful_clicks (sortColumnHeading wlm_page)
     (history (page (snd (sortNameColumnIfNeeded sorting_browser wlm_page start)))) = 1 \<and>
   click_calls (sortColumnHeading wlm_page)
     (history (page (snd (sortNameColumnIfNeeded sorting_browser wlm_page start)))) \<le> 6"
proof -
  have pc: "presence_checks (weightedWordsRuleSetLink wlm_page)
     (history (page (snd (sortNameColumnIfNeeded sorting_browser wlm_page start)))) = [False, True]"
    unfolding sorting_run [THEN conjunct2]
    by (simp add: presence_checks_def wlm_page_def)
  from sortNameColumnIfNeeded_clicks [of wlm_page sorting_browser start]
  obtain obs n where
    o: "presence_checks (weightedWordsRuleSetLink wlm_page)
         (history (page (snd (sortNameColumnIfNeeded sorting_browser wlm_page start)))) =
       presence_checks (weightedWordsRuleSetLink wlm_page) (history (page start)) @ obs"
    and n: "successful_clicks (sortColumnHeading wlm_page)
         (history (page (snd (sortNameColumnIfNeeded sorting_browser wlm_page start)))) =
       successful_clicks (sortColumnHeading wlm_page) (history (page start)) + n"
    and c: "click_calls (sortColumnHeading wlm_page)
         (history (page (snd (sortNameColumnIfNeeded sorting_browser wlm_page start)))) \<le>
       click_calls (sortColumnHeading wlm_page) (history (page start)) + 6"
    and r: "case fst (sortNameColumnIfNeeded sorting_browser wlm_page start) of
        Inr u \<Rightarrow> (obs = [True] \<and> n = 0) \<or> (obs = [False, True] \<and> n = 1) \<or>
                 (obs = [False, False] \<and> n = 2)
      | Inl e \<Rightarrow> (obs = [False] \<and> (n = 0 \<or> n = 1)) \<or>
                 (obs = [False, False] \<and> (n = 1 \<or> n = 2))"
    by blast
  have h0: "history (page start) = []" by (simp add: start_def)
  from o pc have "obs = [False, True]"
    by (simp add: h0 presence_checks_def)
  with r sorting_run have "n = 1" by simp
  with n c pc sorting_run show ?thesis
    by (simp add: h0 successful_clicks_def click_calls_def)
qed

end
